theory Spec2Isabelle
  imports Main "HOL-Library.AList"
begin

unbundle bit_operations_syntax

section \<open>The cgroup package of rkt, as vendored by rktlet\<close>

text \<open>
  A shallow embedding of \<^verbatim>\<open>vendor/github.com/coreos/rkt/common/cgroup/cgroup.go\<close>.
  Go strings are byte strings (\<^typ>\<open>string\<close>), \<^verbatim>\<open>int\<close> and \<^verbatim>\<open>int64\<close> values are
  \<^typ>\<open>int\<close> (no arithmetic of the package can leave the 64-bit range once its own guard
  has passed), errors are values, and everything the operating system decides is an
  explicit argument.
\<close>

subsection \<open>Pieces of the Go standard library that the package calls\<close>

text \<open>\<^verbatim>\<open>strings.Join(elems, sep)\<close>.\<close>

fun Join :: "string list \<Rightarrow> string \<Rightarrow> string" where
  "Join [] sep = []"
| "Join [x] sep = x"
| "Join (x # y # ys) sep = x @ sep @ Join (y # ys) sep"

text \<open>\<^verbatim>\<open>strings.Split(s, sep)\<close> for a separator of one byte: the empty string gives one empty field.\<close>

fun Split :: "string \<Rightarrow> char \<Rightarrow> string list" where
  "Split [] sep = [[]]"
| "Split (c # cs) sep =
     (if c = sep then [] # Split cs sep
      else (case Split cs sep of [] \<Rightarrow> [[c]] | f # fs \<Rightarrow> (c # f) # fs))"

text \<open>
  \<^verbatim>\<open>strings.SplitN(s, sep, n)\<close> for a separator of one byte and \<open>n \<ge> 0\<close>: at most \<open>n\<close>
  fields, the last one being the unsplit remainder.
\<close>

fun SplitN :: "string \<Rightarrow> char \<Rightarrow> nat \<Rightarrow> string list" where
  "SplitN s sep 0 = []"
| "SplitN s sep (Suc 0) = [s]"
| "SplitN s sep (Suc (Suc n)) =
     (if sep \<in> set s
      then takeWhile (\<lambda>c. c \<noteq> sep) s # SplitN (tl (dropWhile (\<lambda>c. c \<noteq> sep) s)) sep (Suc n)
      else [s])"

text \<open>\<^verbatim>\<open>strconv.Itoa\<close>: the decimal digits, most significant first, with a minus sign.\<close>

definition digit_char :: "nat \<Rightarrow> char" where
  "digit_char d = ''0123456789'' ! d"

fun digits10 :: "nat \<Rightarrow> string" where
  "digits10 n = (if n < 10 then [digit_char n] else digits10 (n div 10) @ [digit_char (n mod 10)])"

declare digits10.simps [simp del]

definition Itoa :: "int \<Rightarrow> string" where
  "Itoa i = (if i < 0 then CHR ''-'' # digits10 (nat (- i)) else digits10 (nat i))"

text \<open>Go's integer division \<^verbatim>\<open>a / b\<close> truncates towards zero.\<close>

definition go_quot :: "int \<Rightarrow> int \<Rightarrow> int" where
  "go_quot a b = sgn a * sgn b * (\<bar>a\<bar> div \<bar>b\<bar>)"

text \<open>
  \<^verbatim>\<open>strings.TrimSpace\<close> removes leading and trailing Unicode white space. A Go string is
  UTF-8, so the white-space runes are listed by their encodings; an encoding is a suffix
  or a prefix of the bytes exactly when the decoder reads that rune there.
\<close>

definition space_runes :: "string list" where
  "space_runes =
     [[CHR 0x09],
      [CHR 0x0A],
      [CHR 0x0B],
      [CHR 0x0C],
      [CHR 0x0D],
      [CHR 0x20],
      [CHR 0xC2, CHR 0x85],
      [CHR 0xC2, CHR 0xA0],
      [CHR 0xE1, CHR 0x9A, CHR 0x80],
      [CHR 0xE2, CHR 0x80, CHR 0x80],
      [CHR 0xE2, CHR 0x80, CHR 0x81],
      [CHR 0xE2, CHR 0x80, CHR 0x82],
      [CHR 0xE2, CHR 0x80, CHR 0x83],
      [CHR 0xE2, CHR 0x80, CHR 0x84],
      [CHR 0xE2, CHR 0x80, CHR 0x85],
      [CHR 0xE2, CHR 0x80, CHR 0x86],
      [CHR 0xE2, CHR 0x80, CHR 0x87],
      [CHR 0xE2, CHR 0x80, CHR 0x88],
      [CHR 0xE2, CHR 0x80, CHR 0x89],
      [CHR 0xE2, CHR 0x80, CHR 0x8A],
      [CHR 0xE2, CHR 0x80, CHR 0xA8],
      [CHR 0xE2, CHR 0x80, CHR 0xA9],
      [CHR 0xE2, CHR 0x80, CHR 0xAF],
      [CHR 0xE2, CHR 0x81, CHR 0x9F],
      [CHR 0xE3, CHR 0x80, CHR 0x80]]"

definition is_prefix :: "string \<Rightarrow> string \<Rightarrow> bool" where
  "is_prefix p s = (take (length p) s = p)"

definition leading_space :: "string \<Rightarrow> nat" where
  "leading_space s = (case filter (\<lambda>p. is_prefix p s) space_runes of [] \<Rightarrow> 0 | p # _ \<Rightarrow> length p)"

function TrimLeftSpace :: "string \<Rightarrow> string" where
  "TrimLeftSpace s =
     (if leading_space s = 0 \<or> length s < leading_space s then s
      else TrimLeftSpace (drop (leading_space s) s))"
  by pat_completeness auto
termination
  by (relation "measure length") auto

declare TrimLeftSpace.simps [simp del]

definition space_runes_rev :: "string list" where
  "space_runes_rev = map rev space_runes"

definition trailing_space :: "string \<Rightarrow> nat" where
  "trailing_space r =
     (case filter (\<lambda>p. is_prefix p r) space_runes_rev of [] \<Rightarrow> 0 | p # _ \<Rightarrow> length p)"

function TrimLeftSpaceRev :: "string \<Rightarrow> string" where
  "TrimLeftSpaceRev r =
     (if trailing_space r = 0 \<or> length r < trailing_space r then r
      else TrimLeftSpaceRev (drop (trailing_space r) r))"
  by pat_completeness auto
termination
  by (relation "measure length") auto

declare TrimLeftSpaceRev.simps [simp del]

definition TrimSpace :: "string \<Rightarrow> string" where
  "TrimSpace s = rev (TrimLeftSpaceRev (rev (TrimLeftSpace s)))"

text \<open>
  \<^verbatim>\<open>path/filepath\<close> on Linux. \<^verbatim>\<open>Clean\<close> drops empty and \<^verbatim>\<open>.\<close> elements, resolves
  \<^verbatim>\<open>..\<close> against the element before it, drops \<^verbatim>\<open>..\<close> at the root and returns
  \<^verbatim>\<open>.\<close> for an empty result. \<^verbatim>\<open>Join\<close> joins from the first non-empty element on and
  cleans; \<^verbatim>\<open>Dir\<close> cleans everything up to the last separator.
\<close>

fun clean_elems :: "bool \<Rightarrow> string list \<Rightarrow> string list \<Rightarrow> string list" where
  "clean_elems rooted out [] = rev out"
| "clean_elems rooted out (e # es) =
     (if e = [] \<or> e = ''.'' then clean_elems rooted out es
      else if e = ''..'' then
        (case out of
           [] \<Rightarrow> clean_elems rooted (if rooted then [] else [''..'']) es
         | prev # below \<Rightarrow>
             if prev = ''..'' then clean_elems rooted (''..'' # out) es
             else clean_elems rooted below es)
      else clean_elems rooted (e # out) es)"

definition filepath_Clean :: "string \<Rightarrow> string" where
  "filepath_Clean path =
     (if path = [] then ''.''
      else
        let rooted = (hd path = CHR ''/'');
            out = (if rooted then ''/'' else []) @ Join (clean_elems rooted [] (Split path CHR ''/'')) ''/''
        in if out = [] then ''.'' else out)"

fun filepath_Join :: "string list \<Rightarrow> string" where
  "filepath_Join [] = []"
| "filepath_Join (e # es) =
     (if e \<noteq> [] then filepath_Clean (Join (e # es) ''/'') else filepath_Join es)"

definition filepath_Dir :: "string \<Rightarrow> string" where
  "filepath_Dir path = filepath_Clean (rev (dropWhile (\<lambda>c. c \<noteq> CHR ''/'') (rev path)))"

subsection \<open>Errors, files and the host\<close>

datatype errno = EPERM | ENOENT | EIO | EACCES | EEXIST | EBUSY | ENOTDIR | EINVAL | EROFS

text \<open>
  A Go \<^verbatim>\<open>error\<close>: an error of the operating system, \<^verbatim>\<open>errors.New(msg)\<close>,
  \<^verbatim>\<open>fmt.Errorf(format, args)\<close> kept as the format with its arguments, or
  \<^verbatim>\<open>errwrap.Wrap(outer, inner)\<close>.
\<close>

datatype error =
    Errno errno
  | ErrorsNew string
  | Errorf string "string list"
  | Wrap error error

text \<open>\<^verbatim>\<open>os.IsNotExist\<close> on the result of a system call (\<open>None\<close> is the nil error).\<close>

definition IsNotExist :: "errno option \<Rightarrow> bool" where
  "IsNotExist err = (err = Some ENOENT)"

text \<open>
  An \<^verbatim>\<open>io.Reader\<close> as a \<^verbatim>\<open>bufio.Scanner\<close> with the default line splitter sees it: the
  lines that \<^verbatim>\<open>Scan\<close> yields one after the other, and the error that \<^verbatim>\<open>Err\<close> reports
  once \<^verbatim>\<open>Scan\<close> has returned false (\<open>None\<close> at the end of the input).
\<close>

record reader =
  lines :: "string list"
  read_err :: "error option"

text \<open>
  What the host answers to the read-only calls of the package: \<^verbatim>\<open>syscall.Statfs\<close>
  (the file-system type), \<^verbatim>\<open>os.Open\<close> and \<^verbatim>\<open>os.Stat\<close>.
\<close>

record host =
  Statfs :: "string \<Rightarrow> errno + int"
  Open :: "string \<Rightarrow> errno + reader"
  Stat :: "string \<Rightarrow> errno option"

subsection \<open>Isolator Translator\<close>

text \<open>
  A \<^verbatim>\<open>resource.Quantity\<close> of the Kubernetes API, by the three methods the package calls:
  \<^verbatim>\<open>Value()\<close> (the amount in whole units, rounded up), \<^verbatim>\<open>MilliValue()\<close> (the amount in
  thousandths, rounded up) and \<^verbatim>\<open>String()\<close>.
\<close>

record Quantity =
  Value :: int
  MilliValue :: int
  String :: string

text \<open>
  Modelled from the spec: the "defined maximum milli-value", \<^verbatim>\<open>resource.MaxMilliValue\<close> of
  the Kubernetes API, which that package declares as \<^verbatim>\<open>int64(((1 << 63) - 1) / 1000)\<close>.
\<close>

definition MaxMilliValue :: int where
  "MaxMilliValue = (2 ^ 63 - 1) div 1000"

text \<open>\<^verbatim>\<open>unit.UnitOption\<close> of go-systemd and its constructor.\<close>

record UnitOption =
  Section :: string
  Name :: string
  OptValue :: string

definition NewUnitOption :: "string \<Rightarrow> string \<Rightarrow> string \<Rightarrow> UnitOption" where
  "NewUnitOption section name v = \<lparr>Section = section, Name = name, OptValue = v\<rparr>"

type_synonym addIsolatorFunc = "UnitOption list \<Rightarrow> Quantity \<Rightarrow> error + UnitOption list"

definition Cgroup2fsMagicNumber :: int where
  "Cgroup2fsMagicNumber = 0x63677270"

definition addCpuLimit :: addIsolatorFunc where
  "addCpuLimit opts limit =
     (if Value limit > MaxMilliValue
      then Inl (Errorf ''cpu limit exceeds the maximum millivalue: %v'' [String limit])
      else
        let quota = Itoa (go_quot (MilliValue limit) 10) @ ''%''
        in Inr (opts @ [NewUnitOption ''Service'' ''CPUQuota'' quota]))"

definition addMemoryLimit :: addIsolatorFunc where
  "addMemoryLimit opts limit =
     Inr (opts @ [NewUnitOption ''Service'' ''MemoryLimit'' (Itoa (Value limit))])"

definition isolatorFuncs :: "string \<rightharpoonup> addIsolatorFunc" where
  "isolatorFuncs = [''cpu'' \<mapsto> addCpuLimit, ''memory'' \<mapsto> addMemoryLimit]"

definition v1CgroupControllerRWFiles :: "string \<rightharpoonup> string list" where
  "v1CgroupControllerRWFiles =
     [''memory'' \<mapsto> [''memory.limit_in_bytes''],
      ''cpu'' \<mapsto> [''cpu.cfs_quota_us''],
      ''devices'' \<mapsto> [''devices.allow'', ''devices.deny'']]"

definition IsCgroupUnified :: "host \<Rightarrow> string \<Rightarrow> error + bool" where
  "IsCgroupUnified h root =
     (let cgroupFsPath = filepath_Join [root, ''/sys/fs/cgroup'']
      in case Statfs h cgroupFsPath of
           Inl e \<Rightarrow> Inl (Errno e)
         | Inr fstype \<Rightarrow> Inr (fstype = Cgroup2fsMagicNumber))"

text \<open>
  One \<^verbatim>\<open>Scan\<close>, then \<^verbatim>\<open>Err\<close>, then \<^verbatim>\<open>Text\<close>: the first line, or the read error when there
  is no line, or the empty text at the end of an empty file.
\<close>

definition GetEnabledV2Controllers :: "host \<Rightarrow> error + string list" where
  "GetEnabledV2Controllers h =
     (case Open h ''/sys/fs/cgroup/cgroup.controllers'' of
        Inl e \<Rightarrow> Inl (Errno e)
      | Inr controllersFile \<Rightarrow>
          (case lines controllersFile of
             [] \<Rightarrow> (case read_err controllersFile of
                      Some e \<Rightarrow> Inl e
                    | None \<Rightarrow> Inr (Split [] CHR '' ''))
           | text # _ \<Rightarrow> Inr (Split text CHR '' '')))"

text \<open>The two loops of \<^verbatim>\<open>IsIsolatorSupported\<close>, each leaving at its first hit.\<close>

fun inControllers :: "string \<Rightarrow> string list \<Rightarrow> bool" where
  "inControllers isolator [] = False"
| "inControllers isolator (c # cs) = (if c = isolator then True else inControllers isolator cs)"

fun noFileMissing :: "host \<Rightarrow> string \<Rightarrow> string list \<Rightarrow> bool" where
  "noFileMissing h isolator [] = True"
| "noFileMissing h isolator (f # fs) =
     (let isolatorPath = filepath_Join [''/sys/fs/cgroup/'', isolator, f]
      in if IsNotExist (Stat h isolatorPath) then False else noFileMissing h isolator fs)"

definition IsIsolatorSupported :: "host \<Rightarrow> string \<Rightarrow> error + bool" where
  "IsIsolatorSupported h isolator =
     (case IsCgroupUnified h ''/'' of
        Inl e \<Rightarrow> Inl (Wrap (ErrorsNew ''error determining cgroup version'') e)
      | Inr isUnified \<Rightarrow>
          if isUnified then
            (case GetEnabledV2Controllers h of
               Inl e \<Rightarrow> Inl (Wrap (ErrorsNew ''error determining enabled controllers'') e)
             | Inr controllers \<Rightarrow> Inr (inControllers isolator controllers))
          else
            (case v1CgroupControllerRWFiles isolator of
               Some files \<Rightarrow> Inr (noFileMissing h isolator files)
             | None \<Rightarrow> Inr False))"

text \<open>
  A call either returns or panics: calling the nil function that a Go map gives for a
  missing key is a run-time panic. What \<^verbatim>\<open>MaybeAddIsolator\<close> returns is paired with what
  it printed on standard error (format and arguments).
\<close>

datatype 'a outcome = Panic | Return 'a

type_synonym printed = "string \<times> string list"

definition MaybeAddIsolator ::
  "host \<Rightarrow> UnitOption list \<Rightarrow> string \<Rightarrow> Quantity option
     \<Rightarrow> ((error + UnitOption list) \<times> printed list) outcome" where
  "MaybeAddIsolator h opts isolator limit =
     (case limit of
        None \<Rightarrow> Return (Inr opts, [])
      | Some q \<Rightarrow>
          (case IsIsolatorSupported h isolator of
             Inl err \<Rightarrow> Return (Inl err, [])
           | Inr isSupported \<Rightarrow>
               if isSupported then
                 (case isolatorFuncs isolator of
                    None \<Rightarrow> Panic
                  | Some f \<Rightarrow>
                      (case f opts q of
                         Inl err \<Rightarrow> Return (Inl err, [])
                       | Inr opts' \<Rightarrow> Return (Inr opts', [])))
               else
                 Return (Inr opts,
                   [(''warning: resource/%s isolator set but support disabled in the kernel, skipping\<newline>'',
                     [isolator])])))"

subsection \<open>Controller Enumerator (cgroup v1)\<close>

text \<open>
  What \<^verbatim>\<open>fmt.Sscanf(line, "%s %d %d %d", &controller, &hierarchy, &num, &enabled)\<close> leaves
  behind: it stores the operands from left to right and stops at the first one that does
  not parse, so a call stores the first \<open>n\<close> of the four, for some \<open>n\<close> from 0 to 4. The
  function of the standard library is an argument \<open>sscanf\<close> of the parser below.
\<close>

datatype scanned =
    Scanned0
  | Scanned1 string
  | Scanned2 string int
  | Scanned3 string int int
  | Scanned4 string int int int

text \<open>
  The four variables are declared inside the loop body, so each line starts from their
  zero values; the return values of \<^verbatim>\<open>Sscanf\<close> are dropped.
\<close>

fun var_controller :: "scanned \<Rightarrow> string" where
  "var_controller Scanned0 = []"
| "var_controller (Scanned1 c) = c"
| "var_controller (Scanned2 c h) = c"
| "var_controller (Scanned3 c h n) = c"
| "var_controller (Scanned4 c h n e) = c"

fun var_hierarchy :: "scanned \<Rightarrow> int" where
  "var_hierarchy (Scanned2 c h) = h"
| "var_hierarchy (Scanned3 c h n) = h"
| "var_hierarchy (Scanned4 c h n e) = h"
| "var_hierarchy _ = 0"

fun var_enabled :: "scanned \<Rightarrow> int" where
  "var_enabled (Scanned4 c h n e) = e"
| "var_enabled _ = 0"

text \<open>
  A Go \<^verbatim>\<open>map[int][]string\<close> is a list of entries with distinct keys. A \<^verbatim>\<open>range\<close> over the
  map visits the entries in the order of the list; Go leaves that order open, and nothing
  below depends on it. A new key goes to the end, an assignment to a present key keeps its
  place (\<^const>\<open>AList.update\<close>).
\<close>

type_synonym hierarchy_map = "(int \<times> string list) list"

definition scanLine :: "scanned \<Rightarrow> hierarchy_map \<Rightarrow> hierarchy_map" where
  "scanLine sc cgroups =
     (let controller = var_controller sc; hierarchy = var_hierarchy sc; enabled = var_enabled sc
      in if enabled = 1 then
           (case map_of cgroups hierarchy of
              None \<Rightarrow> AList.update hierarchy [controller] cgroups
            | Some cs \<Rightarrow> AList.update hierarchy (cs @ [controller]) cgroups)
         else cgroups)"

fun scanLines :: "(string \<Rightarrow> scanned) \<Rightarrow> string list \<Rightarrow> hierarchy_map \<Rightarrow> hierarchy_map" where
  "scanLines sscanf [] cgroups = cgroups"
| "scanLines sscanf (l # ls) cgroups = scanLines sscanf ls (scanLine (sscanf l) cgroups)"

definition parseV1Cgroups :: "(string \<Rightarrow> scanned) \<Rightarrow> reader \<Rightarrow> error + hierarchy_map" where
  "parseV1Cgroups sscanf f =
     (let cgroups = scanLines sscanf (drop 1 (lines f)) []
      in case read_err f of
           Some err \<Rightarrow> Inl err
         | None \<Rightarrow> Inr cgroups)"

definition GetEnabledV1Cgroups :: "(string \<Rightarrow> scanned) \<Rightarrow> host \<Rightarrow> error + hierarchy_map" where
  "GetEnabledV1Cgroups sscanf h =
     (case Open h ''/proc/cgroups'' of
        Inl err \<Rightarrow> Inl (Errno err)
      | Inr cgroupsFile \<Rightarrow>
          (case parseV1Cgroups sscanf cgroupsFile of
             Inl err \<Rightarrow> Inl (Wrap (ErrorsNew ''error parsing /proc/cgroups'') err)
           | Inr cgroups \<Rightarrow> Inr cgroups))"

text \<open>
  A scanner for \<open>sscanf\<close> on ASCII input, after \<^verbatim>\<open>fmt\<close>: \<^verbatim>\<open>%s\<close> skips blanks and takes the
  bytes up to the next blank; the blank of the format between two operands needs a blank or
  the end of the input; \<^verbatim>\<open>%d\<close> skips blanks and takes an optional sign and decimal digits
  that fit 64 bits. It is used to run the parser on concrete tables.
\<close>

definition isBlank :: "char \<Rightarrow> bool" where
  "isBlank c = (c \<in> set [CHR '' '', CHR 0x09, CHR 0x0B, CHR 0x0C, CHR 0x0D])"

definition isDigit :: "char \<Rightarrow> bool" where
  "isDigit c = ((48 :: nat) \<le> of_char c \<and> of_char c \<le> (57 :: nat))"

definition scanString :: "string \<Rightarrow> (string \<times> string) option" where
  "scanString s =
     (let s' = dropWhile isBlank s
      in if s' = [] then None
         else Some (takeWhile (\<lambda>c. \<not> isBlank c) s', dropWhile (\<lambda>c. \<not> isBlank c) s'))"

definition decimal :: "string \<Rightarrow> int" where
  "decimal ds = foldl (\<lambda>v c. 10 * v + (int (of_char c) - 48)) 0 ds"

definition scanInt :: "string \<Rightarrow> (int \<times> string) option" where
  "scanInt s =
     (let s' = dropWhile isBlank s;
          neg = (s' \<noteq> [] \<and> hd s' = CHR ''-'');
          r = (if s' \<noteq> [] \<and> (hd s' = CHR ''+'' \<or> hd s' = CHR ''-'') then tl s' else s');
          ds = takeWhile isDigit r;
          v = (if neg then - decimal ds else decimal ds)
      in if ds = [] \<or> v < - (2 ^ 63) \<or> 2 ^ 63 \<le> v then None
         else Some (v, dropWhile isDigit r))"

definition scanSpace :: "string \<Rightarrow> string option" where
  "scanSpace s = (if s = [] \<or> isBlank (hd s) then Some (dropWhile isBlank s) else None)"

definition scanOperand :: "string \<Rightarrow> (int \<times> string) option" where
  "scanOperand s = (case scanSpace s of None \<Rightarrow> None | Some s' \<Rightarrow> scanInt s')"

definition Sscanf_table :: "string \<Rightarrow> scanned" where
  "Sscanf_table l =
     (case scanString l of
        None \<Rightarrow> Scanned0
      | Some (c, r1) \<Rightarrow>
          (case scanOperand r1 of
             None \<Rightarrow> Scanned1 c
           | Some (h, r2) \<Rightarrow>
               (case scanOperand r2 of
                  None \<Rightarrow> Scanned2 c h
                | Some (n, r3) \<Rightarrow>
                    (case scanOperand r3 of
                       None \<Rightarrow> Scanned3 c h n
                     | Some (e, r4) \<Rightarrow> Scanned4 c h n e))))"

fun GetV1ControllerDirs :: "hierarchy_map \<Rightarrow> string list" where
  "GetV1ControllerDirs [] = []"
| "GetV1ControllerDirs ((h, cs) # cgroups) = Join cs '','' # GetV1ControllerDirs cgroups"

text \<open>\<^verbatim>\<open>getV1ControllerSymlinks\<close>: the inner loop, the outer loop, and the function.\<close>

fun linkControllers :: "string \<Rightarrow> string list \<Rightarrow> (string \<times> string) list \<Rightarrow> (string \<times> string) list" where
  "linkControllers tgt [] symlinks = symlinks"
| "linkControllers tgt (ln # cs) symlinks = linkControllers tgt cs (AList.update ln tgt symlinks)"

fun linkHierarchies :: "hierarchy_map \<Rightarrow> (string \<times> string) list \<Rightarrow> (string \<times> string) list" where
  "linkHierarchies [] symlinks = symlinks"
| "linkHierarchies ((h, cs) # cgroups) symlinks =
     linkHierarchies cgroups
       (if length cs > 1 then linkControllers (Join cs '','') cs symlinks else symlinks)"

definition getV1ControllerSymlinks :: "hierarchy_map \<Rightarrow> (string \<times> string) list" where
  "getV1ControllerSymlinks cgroups = linkHierarchies cgroups []"

fun firstRWFiles :: "string list \<Rightarrow> string list" where
  "firstRWFiles [] = []"
| "firstRWFiles (p # parts) =
     (case v1CgroupControllerRWFiles p of
        Some files \<Rightarrow> files @ [''cgroup.procs'']
      | None \<Rightarrow> firstRWFiles parts)"

definition getV1ControllerRWFiles :: "string \<Rightarrow> string list" where
  "getV1ControllerRWFiles controller = firstRWFiles (Split controller CHR '','')"

subsection \<open>Path resolution (cgroup v1)\<close>

fun matchController :: "string \<Rightarrow> string list \<Rightarrow> error + string list" where
  "matchController controller [] = Inl (Errorf ''controller %q not found'' [controller])"
| "matchController controller (l # ls) =
     (let parts = SplitN l CHR '':'' 3
      in if length parts < 3 then Inl (Errorf ''error parsing /proc/self/cgroup'' [])
         else if inControllers controller (Split (parts ! 1) CHR '','') then Inr parts
         else matchController controller ls)"

definition parseV1CgroupController :: "host \<Rightarrow> string \<Rightarrow> string \<Rightarrow> error + string list" where
  "parseV1CgroupController h cgroupPath controller =
     (case Open h cgroupPath of
        Inl err \<Rightarrow> Inl (Wrap (ErrorsNew ''error opening /proc/self/cgroup'') (Errno err))
      | Inr cg \<Rightarrow> matchController controller (lines cg))"

definition GetOwnV1CgroupPath :: "host \<Rightarrow> string \<Rightarrow> error + string" where
  "GetOwnV1CgroupPath h controller =
     (case parseV1CgroupController h ''/proc/self/cgroup'' controller of
        Inl err \<Rightarrow> Inl err
      | Inr parts \<Rightarrow> Inr (parts ! 2))"

definition GetV1CgroupPathByPid :: "host \<Rightarrow> int \<Rightarrow> string \<Rightarrow> error + string" where
  "GetV1CgroupPathByPid h pid controller =
     (case parseV1CgroupController h (''/proc/'' @ Itoa pid @ ''/cgroup'') controller of
        Inl err \<Rightarrow> Inl err
      | Inr parts \<Rightarrow> Inr (parts ! 2))"

subsection \<open>The kernel as the builder and the carver see it\<close>

text \<open>
  The calls on the file system and on the mount table. The package never unmounts; the
  call is listed so that its absence from a run can be stated.
\<close>

datatype syscall =
    MkdirAll string nat
  | Mount string string string int string
  | Unmount string
  | Symlink string string
  | StatFile string
  | ReadFile string
  | WriteFile string string nat

datatype reply = Done | Failed errno | Data string

text \<open>
  A run is the list of the calls made so far with their replies. The kernel is any function
  from the run so far and the next call to a reply, so a reply may depend on everything
  that happened before.
\<close>

type_synonym event = "syscall \<times> reply"

type_synonym kernel = "event list \<Rightarrow> syscall \<Rightarrow> reply"

definition sys :: "kernel \<Rightarrow> syscall \<Rightarrow> event list \<Rightarrow> reply \<times> event list" where
  "sys k c t = (k t c, t @ [(c, k t c)])"

fun failure :: "reply \<Rightarrow> errno option" where
  "failure (Failed e) = Some e"
| "failure _ = None"

fun content :: "reply \<Rightarrow> errno + string" where
  "content (Failed e) = Inl e"
| "content (Data d) = Inr d"
| "content Done = Inr []"

text \<open>Sequencing with \<^verbatim>\<open>if err != nil { return err }\<close>.\<close>

definition andThen ::
  "(event list \<Rightarrow> error option \<times> event list) \<Rightarrow> (event list \<Rightarrow> error option \<times> event list)
     \<Rightarrow> event list \<Rightarrow> error option \<times> event list" where
  "andThen f g t = (case f t of (Some err, t') \<Rightarrow> (Some err, t') | (None, t') \<Rightarrow> g t')"

definition MS_RDONLY :: int where "MS_RDONLY = 1"
definition MS_NOSUID :: int where "MS_NOSUID = 2"
definition MS_NODEV :: int where "MS_NODEV = 4"
definition MS_NOEXEC :: int where "MS_NOEXEC = 8"
definition MS_REMOUNT :: int where "MS_REMOUNT = 32"
definition MS_BIND :: int where "MS_BIND = 4096"
definition MS_STRICTATIME :: int where "MS_STRICTATIME = 16777216"

text \<open>The permission bits \<^verbatim>\<open>0700\<close>, \<^verbatim>\<open>0755\<close> and \<^verbatim>\<open>0644\<close>.\<close>

definition mode_0700 :: nat where "mode_0700 = 7 * 64"
definition mode_0755 :: nat where "mode_0755 = 7 * 64 + 5 * 8 + 5"
definition mode_0644 :: nat where "mode_0644 = 6 * 64 + 4 * 8 + 4"

text \<open>\<^verbatim>\<open>if err := os.MkdirAll(path, perm); err != nil { return err }\<close>\<close>

definition mkdirAll :: "kernel \<Rightarrow> string \<Rightarrow> nat \<Rightarrow> event list \<Rightarrow> error option \<times> event list" where
  "mkdirAll k path perm t =
     (case sys k (MkdirAll path perm) t of (r, t') \<Rightarrow> (map_option Errno (failure r), t'))"

definition mountFsRO :: "kernel \<Rightarrow> string \<Rightarrow> event list \<Rightarrow> error option \<times> event list" where
  "mountFsRO k mountPoint t =
     (let flags = MS_BIND OR MS_REMOUNT OR MS_NOSUID OR MS_NOEXEC OR MS_NODEV OR MS_RDONLY
      in case sys k (Mount mountPoint mountPoint [] flags []) t of
           (r, t') \<Rightarrow>
             (case failure r of
                Some err \<Rightarrow> (Some (Wrap (Errorf ''error remounting RO %q'' [mountPoint]) (Errno err)), t')
              | None \<Rightarrow> (None, t')))"

subsection \<open>Hierarchy Builder\<close>

text \<open>The sysfs step: every failure but \<^verbatim>\<open>EBUSY\<close> returns.\<close>

definition mountSysfs :: "kernel \<Rightarrow> string \<Rightarrow> event list \<Rightarrow> error option \<times> event list" where
  "mountSysfs k sysdir t =
     (let flags = MS_NOSUID OR MS_NOEXEC OR MS_NODEV
      in case sys k (Mount ''sysfs'' sysdir ''sysfs'' flags []) t of
           (r, t') \<Rightarrow>
             (case failure r of
                Some err \<Rightarrow>
                  if err \<noteq> EBUSY
                  then (Some (Wrap (Errorf ''error mounting %q'' [sysdir]) (Errno err)), t')
                  else (None, t')
              | None \<Rightarrow> (None, t')))"

definition mountTmpfs :: "kernel \<Rightarrow> string \<Rightarrow> string \<Rightarrow> event list \<Rightarrow> error option \<times> event list" where
  "mountTmpfs k cgroupTmpfs mountContext t =
     (let flags = MS_NOSUID OR MS_NOEXEC OR MS_NODEV OR MS_STRICTATIME;
          options = (if mountContext \<noteq> []
                     then ''mode=755,context='' @ [CHR 0x22] @ mountContext @ [CHR 0x22]
                     else ''mode=755'')
      in case sys k (Mount ''tmpfs'' cgroupTmpfs ''tmpfs'' flags options) t of
           (r, t') \<Rightarrow>
             (case failure r of
                Some err \<Rightarrow> (Some (Wrap (Errorf ''error mounting %q'' [cgroupTmpfs]) (Errno err)), t')
              | None \<Rightarrow> (None, t')))"

definition mountController :: "kernel \<Rightarrow> string \<Rightarrow> string \<Rightarrow> event list \<Rightarrow> error option \<times> event list" where
  "mountController k root c =
     (let cPath = filepath_Join [root, ''/sys/fs/cgroup'', c];
          flags = MS_NOSUID OR MS_NOEXEC OR MS_NODEV
      in andThen (mkdirAll k cPath mode_0700)
           (\<lambda>t. case sys k (Mount ''cgroup'' cPath ''cgroup'' flags c) t of
                   (r, t') \<Rightarrow>
                     (case failure r of
                        Some err \<Rightarrow> (Some (Wrap (Errorf ''error mounting %q'' [cPath]) (Errno err)), t')
                      | None \<Rightarrow> (None, t'))))"

fun mountControllers :: "kernel \<Rightarrow> string \<Rightarrow> string list \<Rightarrow> event list \<Rightarrow> error option \<times> event list" where
  "mountControllers k root [] = (\<lambda>t. (None, t))"
| "mountControllers k root (c # controllers) =
     andThen (mountController k root c) (mountControllers k root controllers)"

definition createSymlink :: "kernel \<Rightarrow> string \<Rightarrow> string \<times> string \<Rightarrow> event list \<Rightarrow> error option \<times> event list" where
  "createSymlink k cgroupTmpfs lt t =
     (let lnPath = filepath_Join [cgroupTmpfs, fst lt]
      in case sys k (Symlink (snd lt) lnPath) t of
           (r, t') \<Rightarrow>
             (case failure r of
                Some err \<Rightarrow> (Some (Wrap (ErrorsNew ''error creating symlink'') (Errno err)), t')
              | None \<Rightarrow> (None, t')))"

fun createSymlinks ::
  "kernel \<Rightarrow> string \<Rightarrow> (string \<times> string) list \<Rightarrow> event list \<Rightarrow> error option \<times> event list" where
  "createSymlinks k cgroupTmpfs [] = (\<lambda>t. (None, t))"
| "createSymlinks k cgroupTmpfs (lt # symlinks) =
     andThen (createSymlink k cgroupTmpfs lt) (createSymlinks k cgroupTmpfs symlinks)"

definition CreateV1Cgroups ::
  "kernel \<Rightarrow> string \<Rightarrow> hierarchy_map \<Rightarrow> string \<Rightarrow> event list \<Rightarrow> error option \<times> event list" where
  "CreateV1Cgroups k root enabledCgroups mountContext =
     (let controllers = GetV1ControllerDirs enabledCgroups;
          sysdir = filepath_Join [root, ''/sys''];
          cgroupTmpfs = filepath_Join [root, ''/sys/fs/cgroup''];
          symlinks = getV1ControllerSymlinks enabledCgroups;
          systemdControllerPath = filepath_Join [root, ''/sys/fs/cgroup/systemd'']
      in andThen (mkdirAll k sysdir mode_0700)
        (andThen (mountSysfs k sysdir)
        (andThen (mkdirAll k cgroupTmpfs mode_0700)
        (andThen (mountTmpfs k cgroupTmpfs mountContext)
        (andThen (mountControllers k root controllers)
        (andThen (createSymlinks k cgroupTmpfs symlinks)
        (andThen (mkdirAll k systemdControllerPath mode_0700)
          (mountFsRO k cgroupTmpfs))))))))"

subsection \<open>RW-Window Carver, bulk variant\<close>

text \<open>One round of the loop over the two knobs; errors are dropped, so only the run is returned.\<close>

definition fixKnob :: "kernel \<Rightarrow> string \<Rightarrow> string \<Rightarrow> event list \<Rightarrow> event list" where
  "fixKnob k cgroupPathFix knob t =
     (let parentFile = filepath_Join [filepath_Dir cgroupPathFix, knob];
          childFile = filepath_Join [cgroupPathFix, knob]
      in case sys k (ReadFile childFile) t of
           (r, t1) \<Rightarrow>
             (case content r of
                Inl err \<Rightarrow> t1
              | Inr data \<Rightarrow>
                  if TrimSpace data \<noteq> [] then t1
                  else
                    (case sys k (ReadFile parentFile) t1 of
                       (r', t2) \<Rightarrow>
                         (case content r' of
                            Inl err \<Rightarrow> t2
                          | Inr data' \<Rightarrow>
                              snd (sys k (WriteFile childFile data' mode_0644)
                                (snd (sys k (WriteFile childFile data' mode_0644) t2)))))))"

fun fixKnobs :: "kernel \<Rightarrow> string \<Rightarrow> string list \<Rightarrow> event list \<Rightarrow> event list" where
  "fixKnobs k cgroupPathFix [] t = t"
| "fixKnobs k cgroupPathFix (knob # knobs) t = fixKnobs k cgroupPathFix knobs (fixKnob k cgroupPathFix knob t)"

definition fixCpusetKnobs :: "kernel \<Rightarrow> string \<Rightarrow> event list \<Rightarrow> event list" where
  "fixCpusetKnobs k cpusetPath t =
     (let cgroupPathFix = filepath_Join [cpusetPath, ''system.slice''];
          t' = snd (sys k (MkdirAll cgroupPathFix mode_0755) t);
          knobs = [''cpuset.mems'', ''cpuset.cpus'']
      in fixKnobs k cgroupPathFix knobs t')"

definition bindKnob :: "kernel \<Rightarrow> string \<Rightarrow> string \<Rightarrow> event list \<Rightarrow> error option \<times> event list" where
  "bindKnob k appCgroup f t =
     (let cgroupFilePath = filepath_Join [appCgroup, f]
      in case sys k (StatFile cgroupFilePath) t of
           (r, t1) \<Rightarrow>
             if IsNotExist (failure r) then (None, t1)
             else
               (case sys k (Mount cgroupFilePath cgroupFilePath [] MS_BIND []) t1 of
                  (r', t2) \<Rightarrow>
                    (case failure r' of
                       Some err \<Rightarrow>
                         (Some (Wrap (Errorf ''error bind mounting %q'' [cgroupFilePath]) (Errno err)), t2)
                     | None \<Rightarrow> (None, t2))))"

fun bindKnobs :: "kernel \<Rightarrow> string \<Rightarrow> string list \<Rightarrow> event list \<Rightarrow> error option \<times> event list" where
  "bindKnobs k appCgroup [] = (\<lambda>t. (None, t))"
| "bindKnobs k appCgroup (f # fs) = andThen (bindKnob k appCgroup f) (bindKnobs k appCgroup fs)"

fun carveServices ::
  "kernel \<Rightarrow> string \<Rightarrow> string \<Rightarrow> string list \<Rightarrow> event list \<Rightarrow> error option \<times> event list" where
  "carveServices k c subcgroupPath [] = (\<lambda>t. (None, t))"
| "carveServices k c subcgroupPath (serviceName # serviceNames) =
     (let appCgroup = filepath_Join [subcgroupPath, serviceName]
      in andThen (mkdirAll k appCgroup mode_0755)
        (andThen (bindKnobs k appCgroup (getV1ControllerRWFiles c))
          (carveServices k c subcgroupPath serviceNames)))"

definition carveController ::
  "kernel \<Rightarrow> string \<Rightarrow> string \<Rightarrow> string list \<Rightarrow> string \<Rightarrow> event list \<Rightarrow> error option \<times> event list" where
  "carveController k cgroupTmpfs subcgroup serviceNames c =
     (let cPath = filepath_Join [cgroupTmpfs, c];
          subcgroupPath = filepath_Join [cPath, subcgroup, ''system.slice'']
      in andThen (\<lambda>t. (None, if c = ''cpuset'' then fixCpusetKnobs k cPath t else t))
        (andThen (carveServices k c subcgroupPath serviceNames)
          (mountFsRO k cPath)))"

fun carveControllers ::
  "kernel \<Rightarrow> string \<Rightarrow> string \<Rightarrow> string list \<Rightarrow> string list \<Rightarrow> event list \<Rightarrow> error option \<times> event list" where
  "carveControllers k cgroupTmpfs subcgroup serviceNames [] = (\<lambda>t. (None, t))"
| "carveControllers k cgroupTmpfs subcgroup serviceNames (c # controllers) =
     andThen (carveController k cgroupTmpfs subcgroup serviceNames c)
       (carveControllers k cgroupTmpfs subcgroup serviceNames controllers)"

definition RemountV1CgroupsRO ::
  "kernel \<Rightarrow> string \<Rightarrow> hierarchy_map \<Rightarrow> string \<Rightarrow> string list \<Rightarrow> event list \<Rightarrow> error option \<times> event list" where
  "RemountV1CgroupsRO k root enabledCgroups subcgroup serviceNames =
     (let controllers = GetV1ControllerDirs enabledCgroups;
          cgroupTmpfs = filepath_Join [root, ''/sys/fs/cgroup''];
          sysPath = filepath_Join [root, ''/sys'']
      in andThen (carveControllers k cgroupTmpfs subcgroup serviceNames controllers)
           (mountFsRO k sysPath))"

subsection \<open>Concrete hosts and quantities\<close>

text \<open>
  A cgroup v1 host: \<^verbatim>\<open>/sys/fs/cgroup\<close> is a tmpfs (magic number \<^verbatim>\<open>0x01021994\<close>), every
  control file exists, and no file can be opened.
\<close>

definition host_v1 :: host where
  "host_v1 = \<lparr>Statfs = (\<lambda>p. Inr 0x01021994), Open = (\<lambda>p. Inl ENOENT), Stat = (\<lambda>p. None)\<rparr>"

text \<open>The quantity \<^verbatim>\<open>500m\<close>: half a unit.\<close>

definition half_unit :: Quantity where
  "half_unit = \<lparr>Value = 1, MilliValue = 500, String = ''500m''\<rparr>"

text \<open>
  The quantity \<^verbatim>\<open>9223372036854776m\<close>: its milli-value is one more than
  \<^const>\<open>MaxMilliValue\<close>, its value in whole units (rounded up) is far below it.
\<close>

definition quantity_over_max :: Quantity where
  "quantity_over_max =
     \<lparr>Value = 9223372036855, MilliValue = 9223372036854776, String = ''9223372036854776m''\<rparr>"

text \<open>The quantity \<^verbatim>\<open>128Mi\<close>: 134217728 bytes.\<close>

definition mem_128Mi :: Quantity where
  "mem_128Mi = \<lparr>Value = 134217728, MilliValue = 134217728000, String = ''128Mi''\<rparr>"

text \<open>A cgroup v1 host without any control file, and a cgroup v2 host that enables \<^verbatim>\<open>cpu\<close> and \<^verbatim>\<open>io\<close>.\<close>

definition host_v1_bare :: host where
  "host_v1_bare =
     \<lparr>Statfs = (\<lambda>p. Inr 0x01021994), Open = (\<lambda>p. Inl ENOENT), Stat = (\<lambda>p. Some ENOENT)\<rparr>"

definition host_v2 :: host where
  "host_v2 =
     \<lparr>Statfs = (\<lambda>p. Inr 0x63677270),
      Open = (\<lambda>p. if p = ''/sys/fs/cgroup/cgroup.controllers''
                   then Inr \<lparr>lines = [''cpu io''], read_err = None\<rparr> else Inl ENOENT),
      Stat = (\<lambda>p. Some ENOENT)\<rparr>"

text \<open>A controller table as the kernel prints it, with one disabled and one malformed line.\<close>

definition proc_cgroups :: reader where
  "proc_cgroups =
     \<lparr>lines = [''#subsys_name hierarchy num_cgroups enabled'',
               ''cpu 3 1 1'', ''cpuacct 3 1 1'', ''memory 5 7 1'', ''devices 0 1 0'', ''blkio x''],
      read_err = None\<rparr>"

definition host_table :: host where
  "host_table =
     \<lparr>Statfs = (\<lambda>p. Inr 0x01021994),
      Open = (\<lambda>p. if p = ''/proc/cgroups'' then Inr proc_cgroups else Inl ENOENT),
      Stat = (\<lambda>p. None)\<rparr>"

text \<open>
  The words of the specification of path resolution: a line of the membership file has its
  three colon-separated fields, and its comma-joined controller list (the second field)
  contains a controller. The last definition is a host whose \<^verbatim>\<open>/proc/self/cgroup\<close> holds the
  given lines.
\<close>

definition has_three_fields :: "string \<Rightarrow> bool" where
  "has_three_fields l = (3 \<le> length (SplitN l CHR '':'' 3))"

definition lists_controller :: "string \<Rightarrow> string \<Rightarrow> bool" where
  "lists_controller controller l = (controller \<in> set (Split (SplitN l CHR '':'' 3 ! 1) CHR '',''))"

definition host_cg :: "string list \<Rightarrow> host" where
  "host_cg ls =
     \<lparr>Statfs = (\<lambda>p. Inr 0x01021994),
      Open = (\<lambda>p. if p = ''/proc/self/cgroup'' then Inr \<lparr>lines = ls, read_err = None\<rparr> else Inl ENOENT),
      Stat = (\<lambda>p. None)\<rparr>"

text \<open>
  A host with two membership files: the own one and the one of process 1.
\<close>

definition host_pid :: "string list \<Rightarrow> string list \<Rightarrow> host" where
  "host_pid own init =
     \<lparr>Statfs = (\<lambda>p. Inr 0x01021994),
      Open = (\<lambda>p. if p = ''/proc/self/cgroup'' then Inr \<lparr>lines = own, read_err = None\<rparr>
                   else if p = ''/proc/1/cgroup'' then Inr \<lparr>lines = init, read_err = None\<rparr>
                   else Inl ENOENT),
      Stat = (\<lambda>p. None)\<rparr>"

text \<open>The hierarchy map of \<^const>\<open>proc_cgroups\<close>: one joint hierarchy and one of a single controller.\<close>

definition host_hierarchies :: hierarchy_map where
  "host_hierarchies = [(3, [''cpu'', ''cpuacct'']), (5, [''memory''])]"

text \<open>
  Two kernels for the builder. On the first \<^verbatim>\<open>/sys\<close> is mounted already: a sysfs mount
  fails with \<^verbatim>\<open>EBUSY\<close>, every other call succeeds. The second one refuses the tmpfs mount as
  well, with \<^verbatim>\<open>EACCES\<close>.
\<close>

definition host_kernel :: kernel where
  "host_kernel t c =
     (case c of
        Mount source target fstype flags data \<Rightarrow> if fstype = ''sysfs'' then Failed EBUSY else Done
      | _ \<Rightarrow> Done)"

definition tmpfs_denied :: kernel where
  "tmpfs_denied t c =
     (case c of
        Mount source target fstype flags data \<Rightarrow>
          if fstype = ''sysfs'' then Failed EBUSY
          else if fstype = ''tmpfs'' then Failed EACCES
          else Done
      | _ \<Rightarrow> Done)"

text \<open>
  Two kernels for the cpuset knobs. On both the two knobs of the slice
  \<^verbatim>\<open>/sys/fs/cgroup/cpuset/system.slice\<close> hold a blank line. On the first every other file
  reads \<^verbatim>\<open>0-3\<close>; on the second every other read fails with \<^verbatim>\<open>EIO\<close>.
\<close>

definition fresh_slice :: kernel where
  "fresh_slice t c =
     (case c of
        ReadFile path \<Rightarrow>
          if path = ''/sys/fs/cgroup/cpuset/system.slice/cpuset.mems''
             \<or> path = ''/sys/fs/cgroup/cpuset/system.slice/cpuset.cpus''
          then Data [CHR 0x0A]
          else Data (''0-3'' @ [CHR 0x0A])
      | _ \<Rightarrow> Done)"

definition parent_unreadable :: kernel where
  "parent_unreadable t c =
     (case c of
        ReadFile path \<Rightarrow>
          if path = ''/sys/fs/cgroup/cpuset/system.slice/cpuset.mems''
             \<or> path = ''/sys/fs/cgroup/cpuset/system.slice/cpuset.cpus''
          then Data [CHR 0x0A]
          else Failed EIO
      | _ \<Rightarrow> Done)"

text \<open>
  The words of the specification of the builder's error handling. The tolerated event is the
  sysfs mount at \<^verbatim>\<open><root>/sys\<close> failing with \<^verbatim>\<open>EBUSY\<close>; every other failed call is fatal.
  A call is reported by the error of the kernel alone (\<^verbatim>\<open>MkdirAll\<close>), or wrapped in a
  message that names the target of the mount.
\<close>

definition sysfs_busy :: "string \<Rightarrow> event" where
  "sysfs_busy root =
     (Mount ''sysfs'' (filepath_Join [root, ''/sys'']) ''sysfs'' (MS_NOSUID OR MS_NOEXEC OR MS_NODEV) [],
      Failed EBUSY)"

definition fatal :: "string \<Rightarrow> event \<Rightarrow> bool" where
  "fatal root ev = (failure (snd ev) \<noteq> None \<and> ev \<noteq> sysfs_busy root)"

fun is_unmount :: "syscall \<Rightarrow> bool" where
  "is_unmount (Unmount target) = True"
| "is_unmount _ = False"

fun report :: "syscall \<Rightarrow> errno \<Rightarrow> error" where
  "report (Mount source target fstype flags data) e =
     Wrap (Errorf (if fstype = [] then ''error remounting RO %q'' else ''error mounting %q'') [target])
       (Errno e)"
| "report (Symlink target link) e = Wrap (ErrorsNew ''error creating symlink'') (Errno e)"
| "report _ e = Errno e"

definition stops_at_failure :: "string \<Rightarrow> (event list \<Rightarrow> error option \<times> event list) \<Rightarrow> bool" where
  "stops_at_failure root f =
     (\<forall>t. \<exists>evs. snd (f t) = t @ evs
        \<and> (\<forall>ev \<in> set (butlast evs). \<not> fatal root ev)
        \<and> (\<forall>ev \<in> set evs. \<not> is_unmount (fst ev))
        \<and> (case fst (f t) of
             None \<Rightarrow> \<forall>ev \<in> set evs. \<not> fatal root ev
           | Some err \<Rightarrow>
               evs \<noteq> [] \<and> fatal root (last evs)
               \<and> (\<exists>e. snd (last evs) = Failed e \<and> err = report (fst (last evs)) e)))"

text \<open>The writes of a run, in order.\<close>

fun is_write :: "syscall \<Rightarrow> bool" where
  "is_write (WriteFile path data perm) = True"
| "is_write _ = False"

definition writes :: "event list \<Rightarrow> syscall list" where
  "writes evs = filter is_write (map fst evs)"

text \<open>A step only adds to the run: the calls made before it stay on record.\<close>

definition extends_run :: "(event list \<Rightarrow> error option \<times> event list) \<Rightarrow> bool" where
  "extends_run f = (\<forall>t. \<exists>evs. snd (f t) = t @ evs)"

section \<open>Properties\<close>

subsection \<open>Decimal numerals\<close>

lemma of_char_digit_char: "d < 10 \<Longrightarrow> of_char (digit_char d) = 48 + d"
proof -
  assume "d < 10"
  then have "d = 0 \<or> d = 1 \<or> d = 2 \<or> d = 3 \<or> d = 4
    \<or> d = 5 \<or> d = 6 \<or> d = 7 \<or> d = 8 \<or> d = 9" by arith
  then show ?thesis by (auto simp: digit_char_def)
qed

lemma decimal_snoc: "decimal (ds @ [c]) = 10 * decimal ds + (int (of_char c) - 48)"
  by (simp add: decimal_def)

lemma decimal_digits10: "decimal (digits10 n) = int n"
proof (induction n rule: digits10.induct)
  case (1 n)
  show ?case
  proof (cases "n < 10")
    case True
    then show ?thesis by (simp add: digits10.simps[of n] decimal_def of_char_digit_char)
  next
    case False
    then have "decimal (digits10 n) = 10 * decimal (digits10 (n div 10)) + int (n mod 10)"
      by (simp add: digits10.simps[of n] decimal_snoc of_char_digit_char)
    moreover have "decimal (digits10 (n div 10)) = int (n div 10)" using False 1 by simp
    moreover have "10 * int (n div 10) + int (n mod 10) = int n" by presburger
    ultimately show ?thesis by simp
  qed
qed

lemma digits10_inj: "digits10 m = digits10 n \<Longrightarrow> m = n"
  by (metis decimal_digits10 of_nat_eq_iff)

lemma hd_digits10: "hd (digits10 n) \<noteq> CHR ''-''"
proof (induction n rule: digits10.induct)
  case (1 n)
  show ?case
  proof (cases "n < 10")
    case True
    have "of_char (digit_char n) = 48 + n" using True by (rule of_char_digit_char)
    then have "digit_char n \<noteq> CHR ''-''" by auto
    then show ?thesis using True by (simp add: digits10.simps[of n])
  next
    case False
    have ne: "digits10 (n div 10) \<noteq> []" by (simp add: digits10.simps[of "n div 10"])
    from False have "hd (digits10 n) = hd (digits10 (n div 10))"
      using ne by (simp add: digits10.simps[of n])
    with False 1 show ?thesis by simp
  qed
qed

lemma digits10_no_minus: "digits10 n \<noteq> CHR ''-'' # s"
  using hd_digits10[of n] by (cases "digits10 n") auto

lemma Itoa_inj: "Itoa a = Itoa b \<Longrightarrow> a = b"
proof -
  assume eq: "Itoa a = Itoa b"
  consider "a < 0" "b < 0" | "a < 0" "\<not> b < 0" | "\<not> a < 0" "b < 0" | "\<not> a < 0" "\<not> b < 0" by blast
  then show ?thesis
  proof cases
    case 1
    with eq have "digits10 (nat (- a)) = digits10 (nat (- b))" by (simp add: Itoa_def)
    then have "nat (- a) = nat (- b)" by (rule digits10_inj)
    with 1 show ?thesis by simp
  next
    case 2
    with eq have "digits10 (nat b) = CHR ''-'' # digits10 (nat (- a))" by (simp add: Itoa_def)
    then show ?thesis by (simp add: digits10_no_minus)
  next
    case 3
    with eq have "digits10 (nat a) = CHR ''-'' # digits10 (nat (- b))" by (simp add: Itoa_def)
    then show ?thesis by (simp add: digits10_no_minus)
  next
    case 4
    with eq have "digits10 (nat a) = digits10 (nat b)" by (simp add: Itoa_def)
    then have "nat a = nat b" by (rule digits10_inj)
    with 4 show ?thesis by simp
  qed
qed

subsection \<open>Controller Enumerator\<close>

lemma map_of_scanLine:
  "map_of (scanLine sc cg) h =
     (if var_enabled sc = 1 \<and> var_hierarchy sc = h
      then Some ((case map_of cg h of None \<Rightarrow> [] | Some cs \<Rightarrow> cs) @ [var_controller sc])
      else map_of cg h)"
  by (auto simp: scanLine_def Let_def update_conv' split: option.splits)

lemma distinct_scanLine: "distinct (map fst cg) \<Longrightarrow> distinct (map fst (scanLine sc cg))"
  by (auto simp: scanLine_def Let_def distinct_update split: option.splits)

lemma distinct_scanLines: "distinct (map fst cg) \<Longrightarrow> distinct (map fst (scanLines sscanf ls cg))"
  by (induction ls arbitrary: cg) (auto simp: distinct_scanLine)

lemma map_of_scanLines:
  "map_of (scanLines sscanf ls cg) h =
     (let new = map var_controller
                  (filter (\<lambda>sc. var_enabled sc = 1 \<and> var_hierarchy sc = h) (map sscanf ls))
      in case map_of cg h of
           None \<Rightarrow> if new = [] then None else Some new
         | Some cs \<Rightarrow> Some (cs @ new))"
proof (induction ls arbitrary: cg)
  case Nil
  then show ?case by (simp split: option.splits)
next
  case (Cons l ls)
  show ?case
    by (simp add: Cons.IH map_of_scanLine Let_def split: option.splits)
qed

lemma unparsed_line_adds_nothing:
  "(\<forall>c h n e. sc \<noteq> Scanned4 c h n e) \<Longrightarrow> scanLine sc cg = cg"
  by (cases sc) (simp_all add: scanLine_def)

lemma Sscanf1: "Sscanf_table ''cpu 3 1 1'' = Scanned4 ''cpu'' 3 1 1"
  by (simp add: Sscanf_table_def scanString_def scanOperand_def scanSpace_def scanInt_def
      isBlank_def isDigit_def decimal_def Let_def)

lemma Sscanf2: "Sscanf_table ''cpuacct 3 1 1'' = Scanned4 ''cpuacct'' 3 1 1"
  by (simp add: Sscanf_table_def scanString_def scanOperand_def scanSpace_def scanInt_def
      isBlank_def isDigit_def decimal_def Let_def)

lemma Sscanf3: "Sscanf_table ''memory 5 7 1'' = Scanned4 ''memory'' 5 7 1"
  by (simp add: Sscanf_table_def scanString_def scanOperand_def scanSpace_def scanInt_def
      isBlank_def isDigit_def decimal_def Let_def)

lemma Sscanf4: "Sscanf_table ''devices 0 1 0'' = Scanned4 ''devices'' 0 1 0"
  by (simp add: Sscanf_table_def scanString_def scanOperand_def scanSpace_def scanInt_def
      isBlank_def isDigit_def decimal_def Let_def)

lemma Sscanf5: "Sscanf_table ''blkio x'' = Scanned1 ''blkio''"
  by (simp add: Sscanf_table_def scanString_def scanOperand_def scanSpace_def scanInt_def
      isBlank_def isDigit_def decimal_def Let_def)

lemma Sscanf_needs_blank: "Sscanf_table ''cpu 3 1+1'' = Scanned3 ''cpu'' 3 1"
  by (simp add: Sscanf_table_def scanString_def scanOperand_def scanSpace_def scanInt_def
      isBlank_def isDigit_def decimal_def Let_def)

lemma parse_proc_cgroups:
  "parseV1Cgroups Sscanf_table proc_cgroups = Inr [(3, [''cpu'', ''cpuacct'']), (5, [''memory''])]"
  by (simp add: parseV1Cgroups_def proc_cgroups_def Sscanf1 Sscanf2 Sscanf3 Sscanf4 Sscanf5
      scanLine_def)

text \<open>
  C4. When the table is read to its end, \<^const>\<open>parseV1Cgroups\<close> returns a map with distinct
  keys in which hierarchy \<open>h\<close> holds exactly the controllers of the lines after the first one
  whose enabled flag is 1 and whose hierarchy id is \<open>h\<close>, in the order of the lines, and has
  no entry when there is no such line. A line of which \<^verbatim>\<open>Sscanf\<close> does not store all four
  operands changes nothing and raises no error. \<^const>\<open>GetEnabledV1Cgroups\<close> returns the error
  of a failed \<^verbatim>\<open>Open\<close>, and the parsed map otherwise.
\<close>

theorem controller_table_is_grouped_by_hierarchy:
  "(read_err f = None \<longrightarrow>
      (\<exists>cgroups. parseV1Cgroups sscanf f = Inr cgroups
         \<and> distinct (map fst cgroups)
         \<and> (\<forall>h. map_of cgroups h =
               (let cs = map var_controller
                           (filter (\<lambda>sc. var_enabled sc = 1 \<and> var_hierarchy sc = h)
                              (map sscanf (drop 1 (lines f))))
                in if cs = [] then None else Some cs))))
   \<and> ((\<forall>c h n e. sscanf l \<noteq> Scanned4 c h n e) \<longrightarrow> scanLine (sscanf l) cgroups' = cgroups')
   \<and> (Open hst ''/proc/cgroups'' = Inl e \<longrightarrow> GetEnabledV1Cgroups sscanf hst = Inl (Errno e))
   \<and> (Open hst ''/proc/cgroups'' = Inr f \<and> read_err f = None \<longrightarrow>
        GetEnabledV1Cgroups sscanf hst = parseV1Cgroups sscanf f)"
proof (intro conjI impI)
  assume "read_err f = None"
  then have "parseV1Cgroups sscanf f = Inr (scanLines sscanf (drop 1 (lines f)) [])"
    by (simp add: parseV1Cgroups_def)
  moreover have "distinct (map fst (scanLines sscanf (drop 1 (lines f)) []))"
    by (rule distinct_scanLines) simp
  moreover have "\<forall>h. map_of (scanLines sscanf (drop 1 (lines f)) []) h =
               (let cs = map var_controller
                           (filter (\<lambda>sc. var_enabled sc = 1 \<and> var_hierarchy sc = h)
                              (map sscanf (drop 1 (lines f))))
                in if cs = [] then None else Some cs)"
    by (simp add: map_of_scanLines)
  ultimately show "\<exists>cgroups. parseV1Cgroups sscanf f = Inr cgroups
         \<and> distinct (map fst cgroups)
         \<and> (\<forall>h. map_of cgroups h =
               (let cs = map var_controller
                           (filter (\<lambda>sc. var_enabled sc = 1 \<and> var_hierarchy sc = h)
                              (map sscanf (drop 1 (lines f))))
                in if cs = [] then None else Some cs))"
    by blast
next
  assume "\<forall>c h n e. sscanf l \<noteq> Scanned4 c h n e"
  then show "scanLine (sscanf l) cgroups' = cgroups'" by (rule unparsed_line_adds_nothing)
next
  assume "Open hst ''/proc/cgroups'' = Inl e"
  then show "GetEnabledV1Cgroups sscanf hst = Inl (Errno e)" by (simp add: GetEnabledV1Cgroups_def)
next
  assume "Open hst ''/proc/cgroups'' = Inr f \<and> read_err f = None"
  then show "GetEnabledV1Cgroups sscanf hst = parseV1Cgroups sscanf f"
    by (simp add: GetEnabledV1Cgroups_def parseV1Cgroups_def)
qed

lemma parsed_entries_are_not_empty:
  "parseV1Cgroups sscanf f = Inr cgroups \<Longrightarrow> (h, cs) \<in> set cgroups \<Longrightarrow> cs \<noteq> []"
proof -
  assume p: "parseV1Cgroups sscanf f = Inr cgroups" and m: "(h, cs) \<in> set cgroups"
  from p have c: "cgroups = scanLines sscanf (drop 1 (lines f)) []"
    by (auto simp: parseV1Cgroups_def split: option.splits)
  have "distinct (map fst cgroups)" unfolding c by (rule distinct_scanLines) simp
  with m have "map_of cgroups h = Some cs" by simp
  then show ?thesis unfolding c by (auto simp: map_of_scanLines Let_def split: if_splits)
qed

lemma host_table_Open: "Open host_table ''/proc/cgroups'' = Inr proc_cgroups"
  by (simp add: host_table_def)

lemma host_v1_Open: "Open host_v1 p = Inl ENOENT"
  by (simp add: host_v1_def)

lemma proc_cgroups_read_err: "read_err proc_cgroups = None"
  by (simp add: proc_cgroups_def)

theorem controller_table_is_grouped_by_hierarchy_witness:
  "read_err proc_cgroups = None
   \<and> parseV1Cgroups Sscanf_table proc_cgroups = Inr [(3, [''cpu'', ''cpuacct'']), (5, [''memory''])]
   \<and> (\<forall>c h n e. Sscanf_table ''blkio x'' \<noteq> Scanned4 c h n e)
   \<and> scanLine (Sscanf_table ''blkio x'') [(3, [''cpu''])] = [(3, [''cpu''])]
   \<and> Open host_v1 ''/proc/cgroups'' = Inl ENOENT
   \<and> GetEnabledV1Cgroups Sscanf_table host_v1 = Inl (Errno ENOENT)
   \<and> Open host_table ''/proc/cgroups'' = Inr proc_cgroups
   \<and> GetEnabledV1Cgroups Sscanf_table host_table =
        Inr [(3, [''cpu'', ''cpuacct'']), (5, [''memory''])]"
  using controller_table_is_grouped_by_hierarchy
          [of proc_cgroups Sscanf_table "''blkio x''" "[(3, [''cpu''])]" host_v1 ENOENT]
        controller_table_is_grouped_by_hierarchy
          [of proc_cgroups Sscanf_table "''blkio x''" "[(3, [''cpu''])]" host_table ENOENT]
  by (simp add: host_table_Open host_v1_Open proc_cgroups_read_err parse_proc_cgroups Sscanf5)

text \<open>
  C5. Every entry of the map that the enumerator returns, from \<^const>\<open>parseV1Cgroups\<close> or
  from \<^const>\<open>GetEnabledV1Cgroups\<close>, holds at least one controller, whatever the table and
  whatever \<^verbatim>\<open>Sscanf\<close> makes of its lines. The operations that receive the map afterwards
  (\<^const>\<open>GetV1ControllerDirs\<close>, \<^const>\<open>getV1ControllerSymlinks\<close>, \<^const>\<open>CreateV1Cgroups\<close>,
  \<^const>\<open>RemountV1CgroupsRO\<close>) only read it: they are functions of its value and return no map.
\<close>

theorem hierarchy_entries_are_not_empty:
  "parseV1Cgroups sscanf f = Inr cgroups \<or> GetEnabledV1Cgroups sscanf hst = Inr cgroups \<Longrightarrow>
   (h, cs) \<in> set cgroups \<Longrightarrow> cs \<noteq> []"
proof -
  assume a: "parseV1Cgroups sscanf f = Inr cgroups \<or> GetEnabledV1Cgroups sscanf hst = Inr cgroups"
    and m: "(h, cs) \<in> set cgroups"
  from a have "\<exists>f'. parseV1Cgroups sscanf f' = Inr cgroups"
    by (auto simp: GetEnabledV1Cgroups_def split: sum.splits)
  then obtain f' where "parseV1Cgroups sscanf f' = Inr cgroups" ..
  then show ?thesis using m by (rule parsed_entries_are_not_empty)
qed

theorem hierarchy_entries_are_not_empty_witness:
  "GetEnabledV1Cgroups Sscanf_table host_table = Inr [(3, [''cpu'', ''cpuacct'']), (5, [''memory''])]
   \<and> (5, [''memory'']) \<in> set [(3, [''cpu'', ''cpuacct'']), (5 :: int, [''memory''])]
   \<and> [''memory''] \<noteq> []"
  using hierarchy_entries_are_not_empty
          [of Sscanf_table proc_cgroups "[(3, [''cpu'', ''cpuacct'']), (5, [''memory''])]"
              host_table 5 "[''memory'']"]
  by (simp add: GetEnabledV1Cgroups_def host_table_Open parse_proc_cgroups)


subsection \<open>Isolator Translator\<close>

lemma host_v1_unified: "IsCgroupUnified host_v1 ''/'' = Inr False"
  by (simp add: IsCgroupUnified_def host_v1_def Cgroup2fsMagicNumber_def)

lemma host_v1_Stat: "Stat host_v1 p = None"
  by (simp add: host_v1_def)

lemma host_v1_devices: "IsIsolatorSupported host_v1 ''devices'' = Inr True"
  by (simp add: IsIsolatorSupported_def host_v1_unified v1CgroupControllerRWFiles_def
      IsNotExist_def host_v1_Stat)

lemma host_v1_cpu: "IsIsolatorSupported host_v1 ''cpu'' = Inr True"
  by (simp add: IsIsolatorSupported_def host_v1_unified v1CgroupControllerRWFiles_def
      IsNotExist_def host_v1_Stat)

lemma host_v1_memory: "IsIsolatorSupported host_v1 ''memory'' = Inr True"
  by (simp add: IsIsolatorSupported_def host_v1_unified v1CgroupControllerRWFiles_def
      IsNotExist_def host_v1_Stat)

lemma ceil_div_le: "- ((- m) div 1000) \<le> max (m::int) 0"
proof -
  define d where "d = (- m) div 1000"
  define r where "r = (- m) mod 1000"
  have "- m = 1000 * d + r" by (simp add: d_def r_def)
  moreover have "0 \<le> r" and "r < 1000" by (simp_all add: r_def)
  ultimately have "- d \<le> max m 0" by linarith
  then show ?thesis by (simp add: d_def)
qed

lemma go_quot_nonneg: "0 \<le> a \<Longrightarrow> go_quot a 10 = a div 10"
  by (cases "a = 0") (simp_all add: go_quot_def)

lemma MaybeAddIsolator_supported:
  "IsIsolatorSupported h isolator = Inr True \<Longrightarrow> isolatorFuncs isolator = Some f \<Longrightarrow>
   MaybeAddIsolator h opts isolator (Some q) =
     (case f opts q of Inl err \<Rightarrow> Return (Inl err, []) | Inr opts' \<Rightarrow> Return (Inr opts', []))"
  by (simp add: MaybeAddIsolator_def)

lemma isolatorFuncs_cpu: "isolatorFuncs ''cpu'' = Some addCpuLimit"
  by (simp add: isolatorFuncs_def)

lemma isolatorFuncs_memory: "isolatorFuncs ''memory'' = Some addMemoryLimit"
  by (simp add: isolatorFuncs_def)

text \<open>
  C1, as amended. When the isolator is supported, \<^const>\<open>MaybeAddIsolator\<close> for \<^verbatim>\<open>cpu\<close>
  compares the value in whole units, \<^verbatim>\<open>limit.Value()\<close>, with \<^const>\<open>MaxMilliValue\<close>: at or
  below it exactly one \<^verbatim>\<open>CPUQuota\<close> option is appended, whose value is the milli-value
  divided by ten (Go's truncating division) followed by a percent sign; above it the call
  returns the validation error and no options. For a milli-value that is not negative the
  quotient is \<open>floor (milli / 10)\<close>, and a quantity whose milli-value is at most the maximum
  (with the whole units being the milli-value divided by 1000, rounded up) passes the guard.
\<close>

theorem cpu_limit_guard_is_on_whole_units:
  "(IsIsolatorSupported h ''cpu'' = Inr True \<longrightarrow>
      MaybeAddIsolator h opts ''cpu'' (Some q) =
        (if Value q \<le> MaxMilliValue
         then Return (Inr (opts @ [NewUnitOption ''Service'' ''CPUQuota''
                                     (Itoa (go_quot (MilliValue q) 10) @ ''%'')]), [])
         else Return (Inl (Errorf ''cpu limit exceeds the maximum millivalue: %v'' [String q]), [])))
   \<and> (0 \<le> MilliValue q \<longrightarrow> go_quot (MilliValue q) 10 = MilliValue q div 10)
   \<and> (Value q = - ((- MilliValue q) div 1000) \<and> MilliValue q \<le> MaxMilliValue
        \<longrightarrow> Value q \<le> MaxMilliValue)"
proof (intro conjI impI)
  assume "IsIsolatorSupported h ''cpu'' = Inr True"
  then show "MaybeAddIsolator h opts ''cpu'' (Some q) =
        (if Value q \<le> MaxMilliValue
         then Return (Inr (opts @ [NewUnitOption ''Service'' ''CPUQuota''
                                     (Itoa (go_quot (MilliValue q) 10) @ ''%'')]), [])
         else Return (Inl (Errorf ''cpu limit exceeds the maximum millivalue: %v'' [String q]), []))"
    by (simp add: MaybeAddIsolator_supported[OF _ isolatorFuncs_cpu] addCpuLimit_def)
next
  assume "0 \<le> MilliValue q"
  then show "go_quot (MilliValue q) 10 = MilliValue q div 10" by (rule go_quot_nonneg)
next
  assume "Value q = - ((- MilliValue q) div 1000) \<and> MilliValue q \<le> MaxMilliValue"
  then show "Value q \<le> MaxMilliValue"
  proof -
    assume a: "Value q = - ((- MilliValue q) div 1000) \<and> MilliValue q \<le> MaxMilliValue"
    have "(0::int) \<le> MaxMilliValue" by (simp add: MaxMilliValue_def)
    with a have "max (MilliValue q) 0 \<le> MaxMilliValue" by simp
    with ceil_div_le[of "MilliValue q"] a show ?thesis by linarith
  qed
qed

lemma Itoa_50: "Itoa 50 = ''50''"
  by (simp add: Itoa_def digits10.simps[of 50] digits10.simps[of 5] digit_char_def)

theorem cpu_limit_guard_is_on_whole_units_witness:
  "IsIsolatorSupported host_v1 ''cpu'' = Inr True
   \<and> MaybeAddIsolator host_v1 [] ''cpu'' (Some half_unit) =
       Return (Inr [NewUnitOption ''Service'' ''CPUQuota'' ''50%''], [])"
  using cpu_limit_guard_is_on_whole_units[of host_v1 "[]" half_unit]
  by (simp add: host_v1_cpu half_unit_def MaxMilliValue_def go_quot_def Itoa_50)

text \<open>
  C1, as stated, fails: the quantity \<^verbatim>\<open>9223372036854776m\<close> has a milli-value above the
  maximum, and the call appends a quota instead of failing.
\<close>

theorem cpu_limit_over_max_milli_counterexample:
  "MaxMilliValue < MilliValue quantity_over_max
   \<and> MaybeAddIsolator host_v1 [] ''cpu'' (Some quantity_over_max)
       = Return (Inr [NewUnitOption ''Service'' ''CPUQuota'' (Itoa 922337203685477 @ ''%'')], [])"
  by (simp add: MaybeAddIsolator_supported[OF host_v1_cpu isolatorFuncs_cpu] addCpuLimit_def
      quantity_over_max_def MaxMilliValue_def go_quot_def)

text \<open>
  C8. \<^const>\<open>addMemoryLimit\<close> never fails and appends exactly one \<^verbatim>\<open>MemoryLimit\<close> option
  holding the decimal numeral of the byte count; so does \<^const>\<open>MaybeAddIsolator\<close> for
  \<^verbatim>\<open>memory\<close> when the isolator is supported. The numeral loses nothing: two quantities with
  the same numeral have the same byte count.
\<close>

theorem memory_limit_is_exact:
  "addMemoryLimit opts q = Inr (opts @ [NewUnitOption ''Service'' ''MemoryLimit'' (Itoa (Value q))])
   \<and> (IsIsolatorSupported h ''memory'' = Inr True \<longrightarrow>
        MaybeAddIsolator h opts ''memory'' (Some q) =
          Return (Inr (opts @ [NewUnitOption ''Service'' ''MemoryLimit'' (Itoa (Value q))]), []))
   \<and> (Itoa (Value q) = Itoa (Value q') \<longrightarrow> Value q = Value q')"
  by (auto simp: MaybeAddIsolator_supported[OF _ isolatorFuncs_memory] addMemoryLimit_def
      dest: Itoa_inj)

theorem memory_limit_is_exact_witness:
  "IsIsolatorSupported host_v1 ''memory'' = Inr True
   \<and> MaybeAddIsolator host_v1 [] ''memory'' (Some mem_128Mi) =
       Return (Inr [NewUnitOption ''Service'' ''MemoryLimit'' (Itoa 134217728)], [])"
  using memory_limit_is_exact[of "[]" mem_128Mi host_v1 mem_128Mi]
  by (simp add: host_v1_memory mem_128Mi_def)

lemma inControllers_set: "inControllers x cs = (x \<in> set cs)"
  by (induction cs) auto

lemma noFileMissing_ENOENT:
  "f \<in> set fs \<Longrightarrow> Stat h (filepath_Join [''/sys/fs/cgroup/'', isolator, f]) = Some ENOENT \<Longrightarrow>
   noFileMissing h isolator fs = False"
  by (induction fs) (auto simp: IsNotExist_def Let_def)

text \<open>
  C3. With a limit present, if the kernel does not support the isolator (cgroup v2: the
  name is not among the enabled controllers; cgroup v1: one of the control files of the
  name does not exist), \<^const>\<open>MaybeAddIsolator\<close> returns the options unchanged and no error,
  and prints one warning.
\<close>

theorem unsupported_isolator_is_skipped:
  "(IsCgroupUnified h ''/'' = Inr True \<and> GetEnabledV2Controllers h = Inr controllers
      \<and> isolator \<notin> set controllers)
   \<or> (IsCgroupUnified h ''/'' = Inr False \<and> v1CgroupControllerRWFiles isolator = Some files
      \<and> f \<in> set files
      \<and> Stat h (filepath_Join [''/sys/fs/cgroup/'', isolator, f]) = Some ENOENT)
   \<Longrightarrow> IsIsolatorSupported h isolator = Inr False
       \<and> MaybeAddIsolator h opts isolator (Some q) =
           Return (Inr opts,
             [(''warning: resource/%s isolator set but support disabled in the kernel, skipping\<newline>'',
               [isolator])])"
  by (auto simp: IsIsolatorSupported_def MaybeAddIsolator_def inControllers_set noFileMissing_ENOENT)

lemma host_v2_unified: "IsCgroupUnified host_v2 ''/'' = Inr True"
  by (simp add: IsCgroupUnified_def host_v2_def Cgroup2fsMagicNumber_def)

lemma host_v2_controllers: "GetEnabledV2Controllers host_v2 = Inr [''cpu'', ''io'']"
  by (simp add: GetEnabledV2Controllers_def host_v2_def)

theorem unsupported_isolator_is_skipped_witness:
  "IsCgroupUnified host_v2 ''/'' = Inr True
   \<and> GetEnabledV2Controllers host_v2 = Inr [''cpu'', ''io'']
   \<and> ''memory'' \<notin> set [''cpu'', ''io'']
   \<and> IsIsolatorSupported host_v2 ''memory'' = Inr False
   \<and> MaybeAddIsolator host_v2 [] ''memory'' (Some mem_128Mi) =
        Return (Inr [],
          [(''warning: resource/%s isolator set but support disabled in the kernel, skipping\<newline>'',
            [''memory''])])"
  using unsupported_isolator_is_skipped[of host_v2 "[''cpu'', ''io'']" "''memory''" "[]" "[]" "[]" mem_128Mi]
  by (simp add: host_v2_unified host_v2_controllers)


text \<open>
  C10. The claim: every isolator name that \<^const>\<open>IsIsolatorSupported\<close> accepts is a key of
  \<^const>\<open>isolatorFuncs\<close>, so \<^const>\<open>MaybeAddIsolator\<close> never calls a nil function. On a cgroup v1
  host whose \<^verbatim>\<open>devices.allow\<close> and \<^verbatim>\<open>devices.deny\<close> files exist, the name \<^verbatim>\<open>devices\<close> is
  supported (it is a key of \<^const>\<open>v1CgroupControllerRWFiles\<close>), it is no key of
  \<^const>\<open>isolatorFuncs\<close>, and the call with a limit panics.
\<close>

theorem devices_isolator_calls_nil_function:
  "IsIsolatorSupported host_v1 ''devices'' = Inr True
   \<and> isolatorFuncs ''devices'' = None
   \<and> MaybeAddIsolator host_v1 [] ''devices'' (Some half_unit) = Panic"
  by (simp add: host_v1_devices MaybeAddIsolator_def isolatorFuncs_def)

subsection \<open>Path resolution\<close>

lemma matchController_skip:
  "\<forall>l' \<in> set pre. has_three_fields l' \<and> \<not> lists_controller c l' \<Longrightarrow>
   matchController c (pre @ rest) = matchController c rest"
  by (induction pre) (auto simp: has_three_fields_def lists_controller_def inControllers_set Let_def)

lemma matchController_hit:
  "has_three_fields l \<Longrightarrow> lists_controller c l \<Longrightarrow>
   matchController c (l # post) = Inr (SplitN l CHR '':'' 3)"
  by (auto simp: has_three_fields_def lists_controller_def inControllers_set Let_def)

lemma matchController_malformed:
  "\<not> has_three_fields l \<Longrightarrow>
   matchController c (l # post) = Inl (Errorf ''error parsing /proc/self/cgroup'' [])"
  by (auto simp: has_three_fields_def Let_def)

lemma matchController_none:
  "\<forall>l \<in> set ls. has_three_fields l \<and> \<not> lists_controller c l \<Longrightarrow>
   matchController c ls = Inl (Errorf ''controller %q not found'' [c])"
  using matchController_skip[of ls c "[]"] by simp

lemma resolve_hit:
  "Open h path = Inr cg \<Longrightarrow> lines cg = pre @ l # post \<Longrightarrow>
   \<forall>l' \<in> set pre. has_three_fields l' \<and> \<not> lists_controller c l' \<Longrightarrow>
   has_three_fields l \<Longrightarrow> lists_controller c l \<Longrightarrow>
   parseV1CgroupController h path c = Inr (SplitN l CHR '':'' 3)"
  by (simp add: parseV1CgroupController_def matchController_skip matchController_hit
      del: matchController.simps)

lemma resolve_malformed:
  "Open h path = Inr cg \<Longrightarrow> lines cg = pre @ l # post \<Longrightarrow>
   \<forall>l' \<in> set pre. has_three_fields l' \<and> \<not> lists_controller c l' \<Longrightarrow>
   \<not> has_three_fields l \<Longrightarrow>
   parseV1CgroupController h path c = Inl (Errorf ''error parsing /proc/self/cgroup'' [])"
  by (simp add: parseV1CgroupController_def matchController_skip matchController_malformed
      del: matchController.simps)

lemma resolve_none:
  "Open h path = Inr cg \<Longrightarrow>
   \<forall>l' \<in> set (lines cg). has_three_fields l' \<and> \<not> lists_controller c l' \<Longrightarrow>
   parseV1CgroupController h path c = Inl (Errorf ''controller %q not found'' [c])"
  by (simp add: parseV1CgroupController_def matchController_none del: matchController.simps)

lemma resolve_unopened:
  "Open h path = Inl e \<Longrightarrow>
   parseV1CgroupController h path c =
     Inl (Wrap (ErrorsNew ''error opening /proc/self/cgroup'') (Errno e))"
  by (simp add: parseV1CgroupController_def)

text \<open>
  C7, as amended. Both resolvers scan the lines of the membership file in order:
  \<^const>\<open>GetOwnV1CgroupPath\<close> those of \<^verbatim>\<open>/proc/self/cgroup\<close>, \<^const>\<open>GetV1CgroupPathByPid\<close> those of
  \<^verbatim>\<open>/proc/<pid>/cgroup\<close>. Each returns the third field of the first line whose controller
  list contains the controller, provided every line before it has three fields; a parse
  error at the first line with fewer than three fields when no earlier line matched; "not
  found" when every line is well formed and none matches; and the wrapped error when the
  file cannot be opened.
\<close>

theorem cgroup_path_of_first_listing_line:
  "(Open h ''/proc/self/cgroup'' = Inr cg \<and> lines cg = pre @ l # post
      \<and> (\<forall>l' \<in> set pre. has_three_fields l' \<and> \<not> lists_controller c l')
      \<and> has_three_fields l \<and> lists_controller c l
      \<longrightarrow> GetOwnV1CgroupPath h c = Inr (SplitN l CHR '':'' 3 ! 2))
   \<and> (Open h ''/proc/self/cgroup'' = Inr cg \<and> lines cg = pre @ l # post
      \<and> (\<forall>l' \<in> set pre. has_three_fields l' \<and> \<not> lists_controller c l')
      \<and> \<not> has_three_fields l
      \<longrightarrow> GetOwnV1CgroupPath h c = Inl (Errorf ''error parsing /proc/self/cgroup'' []))
   \<and> (Open h ''/proc/self/cgroup'' = Inr cg
      \<and> (\<forall>l' \<in> set (lines cg). has_three_fields l' \<and> \<not> lists_controller c l')
      \<longrightarrow> GetOwnV1CgroupPath h c = Inl (Errorf ''controller %q not found'' [c]))
   \<and> (Open h ''/proc/self/cgroup'' = Inl e
      \<longrightarrow> GetOwnV1CgroupPath h c = Inl (Wrap (ErrorsNew ''error opening /proc/self/cgroup'') (Errno e)))
   \<and> (Open h (''/proc/'' @ Itoa pid @ ''/cgroup'') = Inr cg' \<and> lines cg' = pre' @ l' # post'
      \<and> (\<forall>x \<in> set pre'. has_three_fields x \<and> \<not> lists_controller c x)
      \<and> has_three_fields l' \<and> lists_controller c l'
      \<longrightarrow> GetV1CgroupPathByPid h pid c = Inr (SplitN l' CHR '':'' 3 ! 2))
   \<and> (Open h (''/proc/'' @ Itoa pid @ ''/cgroup'') = Inr cg' \<and> lines cg' = pre' @ l' # post'
      \<and> (\<forall>x \<in> set pre'. has_three_fields x \<and> \<not> lists_controller c x)
      \<and> \<not> has_three_fields l'
      \<longrightarrow> GetV1CgroupPathByPid h pid c = Inl (Errorf ''error parsing /proc/self/cgroup'' []))
   \<and> (Open h (''/proc/'' @ Itoa pid @ ''/cgroup'') = Inr cg'
      \<and> (\<forall>x \<in> set (lines cg'). has_three_fields x \<and> \<not> lists_controller c x)
      \<longrightarrow> GetV1CgroupPathByPid h pid c = Inl (Errorf ''controller %q not found'' [c]))
   \<and> (Open h (''/proc/'' @ Itoa pid @ ''/cgroup'') = Inl e'
      \<longrightarrow> GetV1CgroupPathByPid h pid c =
            Inl (Wrap (ErrorsNew ''error opening /proc/self/cgroup'') (Errno e')))"
proof (intro conjI impI; (elim conjE)?)
  assume "Open h ''/proc/self/cgroup'' = Inr cg" "lines cg = pre @ l # post"
    "\<forall>l' \<in> set pre. has_three_fields l' \<and> \<not> lists_controller c l'"
    "has_three_fields l" "lists_controller c l"
  then show "GetOwnV1CgroupPath h c = Inr (SplitN l CHR '':'' 3 ! 2)"
    by (simp add: GetOwnV1CgroupPath_def resolve_hit)
next
  assume "Open h ''/proc/self/cgroup'' = Inr cg" "lines cg = pre @ l # post"
    "\<forall>l' \<in> set pre. has_three_fields l' \<and> \<not> lists_controller c l'"
    "\<not> has_three_fields l"
  then show "GetOwnV1CgroupPath h c = Inl (Errorf ''error parsing /proc/self/cgroup'' [])"
    by (simp add: GetOwnV1CgroupPath_def resolve_malformed)
next
  assume "Open h ''/proc/self/cgroup'' = Inr cg"
    "\<forall>l' \<in> set (lines cg). has_three_fields l' \<and> \<not> lists_controller c l'"
  then show "GetOwnV1CgroupPath h c = Inl (Errorf ''controller %q not found'' [c])"
    by (simp add: GetOwnV1CgroupPath_def resolve_none)
next
  assume "Open h ''/proc/self/cgroup'' = Inl e"
  then show "GetOwnV1CgroupPath h c =
      Inl (Wrap (ErrorsNew ''error opening /proc/self/cgroup'') (Errno e))"
    by (simp add: GetOwnV1CgroupPath_def resolve_unopened)
next
  assume "Open h (''/proc/'' @ Itoa pid @ ''/cgroup'') = Inr cg'" "lines cg' = pre' @ l' # post'"
    "\<forall>x \<in> set pre'. has_three_fields x \<and> \<not> lists_controller c x"
    "has_three_fields l'" "lists_controller c l'"
  then show "GetV1CgroupPathByPid h pid c = Inr (SplitN l' CHR '':'' 3 ! 2)"
    by (simp add: GetV1CgroupPathByPid_def resolve_hit)
next
  assume "Open h (''/proc/'' @ Itoa pid @ ''/cgroup'') = Inr cg'" "lines cg' = pre' @ l' # post'"
    "\<forall>x \<in> set pre'. has_three_fields x \<and> \<not> lists_controller c x"
    "\<not> has_three_fields l'"
  then show "GetV1CgroupPathByPid h pid c = Inl (Errorf ''error parsing /proc/self/cgroup'' [])"
    by (simp add: GetV1CgroupPathByPid_def resolve_malformed)
next
  assume "Open h (''/proc/'' @ Itoa pid @ ''/cgroup'') = Inr cg'"
    "\<forall>x \<in> set (lines cg'). has_three_fields x \<and> \<not> lists_controller c x"
  then show "GetV1CgroupPathByPid h pid c = Inl (Errorf ''controller %q not found'' [c])"
    by (simp add: GetV1CgroupPathByPid_def resolve_none)
next
  assume "Open h (''/proc/'' @ Itoa pid @ ''/cgroup'') = Inl e'"
  then show "GetV1CgroupPathByPid h pid c =
      Inl (Wrap (ErrorsNew ''error opening /proc/self/cgroup'') (Errno e'))"
    by (simp add: GetV1CgroupPathByPid_def resolve_unopened)
qed

lemma split_line_1: "SplitN ''11:memory:/user.slice'' CHR '':'' 3 = [''11'', ''memory'', ''/user.slice'']"
  by (simp add: numeral_3_eq_3)

lemma split_line_2:
  "SplitN ''4:cpu,cpuacct:/system.slice/a:b'' CHR '':'' 3 = [''4'', ''cpu,cpuacct'', ''/system.slice/a:b'']"
  by (simp add: numeral_3_eq_3)

lemma split_line_3: "SplitN ''garbage'' CHR '':'' 3 = [''garbage'']"
  by (simp add: numeral_3_eq_3)

lemma split_line_4: "SplitN ''4:cpu,cpuacct:/init'' CHR '':'' 3 = [''4'', ''cpu,cpuacct'', ''/init'']"
  by (simp add: numeral_3_eq_3)

lemma Itoa_1: "Itoa 1 = ''1''"
  by (simp add: Itoa_def digits10.simps[of "Suc 0"] digit_char_def)

lemma Itoa_2: "Itoa 2 = ''2''"
  by (simp add: Itoa_def digits10.simps[of 2] digit_char_def)

text \<open>
  The four cases for the own file and the four cases for the file of a process; in the
  first of the latter, the own file and the file of process 1 give different paths.
\<close>

theorem cgroup_path_of_first_listing_line_witness:
  "GetOwnV1CgroupPath (host_pid [''11:memory:/user.slice'', ''4:cpu,cpuacct:/system.slice/a:b'']
                                [''4:cpu,cpuacct:/init'']) ''cpu''
     = Inr ''/system.slice/a:b''
   \<and> GetV1CgroupPathByPid (host_pid [''11:memory:/user.slice'', ''4:cpu,cpuacct:/system.slice/a:b'']
                                     [''4:cpu,cpuacct:/init'']) 1 ''cpu''
     = Inr ''/init''
   \<and> GetOwnV1CgroupPath (host_pid [''11:memory:/user.slice'', ''garbage''] [''garbage'']) ''cpu''
     = Inl (Errorf ''error parsing /proc/self/cgroup'' [])
   \<and> GetV1CgroupPathByPid (host_pid [''11:memory:/user.slice'', ''garbage''] [''garbage'']) 1 ''cpu''
     = Inl (Errorf ''error parsing /proc/self/cgroup'' [])
   \<and> GetOwnV1CgroupPath (host_pid [''11:memory:/user.slice''] [''11:memory:/user.slice'']) ''cpu''
     = Inl (Errorf ''controller %q not found'' [''cpu''])
   \<and> GetV1CgroupPathByPid (host_pid [''11:memory:/user.slice''] [''11:memory:/user.slice'']) 1 ''cpu''
     = Inl (Errorf ''controller %q not found'' [''cpu''])
   \<and> GetOwnV1CgroupPath host_v1 ''cpu''
     = Inl (Wrap (ErrorsNew ''error opening /proc/self/cgroup'') (Errno ENOENT))
   \<and> GetV1CgroupPathByPid (host_pid [] []) 2 ''cpu''
     = Inl (Wrap (ErrorsNew ''error opening /proc/self/cgroup'') (Errno ENOENT))"
  using cgroup_path_of_first_listing_line
      [of "host_pid [''11:memory:/user.slice'', ''4:cpu,cpuacct:/system.slice/a:b''] [''4:cpu,cpuacct:/init'']"
          "\<lparr>lines = [''11:memory:/user.slice'', ''4:cpu,cpuacct:/system.slice/a:b''], read_err = None\<rparr>"
          "[''11:memory:/user.slice'']" "''4:cpu,cpuacct:/system.slice/a:b''" "[]" "''cpu''" ENOENT 1
          "\<lparr>lines = [''4:cpu,cpuacct:/init''], read_err = None\<rparr>"
          "[]" "''4:cpu,cpuacct:/init''" "[]" ENOENT]
    cgroup_path_of_first_listing_line
      [of "host_pid [''11:memory:/user.slice'', ''garbage''] [''garbage'']"
          "\<lparr>lines = [''11:memory:/user.slice'', ''garbage''], read_err = None\<rparr>"
          "[''11:memory:/user.slice'']" "''garbage''" "[]" "''cpu''" ENOENT 1
          "\<lparr>lines = [''garbage''], read_err = None\<rparr>"
          "[]" "''garbage''" "[]" ENOENT]
    cgroup_path_of_first_listing_line
      [of "host_pid [''11:memory:/user.slice''] [''11:memory:/user.slice'']"
          "\<lparr>lines = [''11:memory:/user.slice''], read_err = None\<rparr>"
          "[]" "[]" "[]" "''cpu''" ENOENT 1
          "\<lparr>lines = [''11:memory:/user.slice''], read_err = None\<rparr>"
          "[]" "[]" "[]" ENOENT]
    cgroup_path_of_first_listing_line
      [of host_v1 "\<lparr>lines = [], read_err = None\<rparr>" "[]" "[]" "[]" "''cpu''" ENOENT 1
          "\<lparr>lines = [], read_err = None\<rparr>" "[]" "[]" "[]" ENOENT]
    cgroup_path_of_first_listing_line
      [of "host_pid [] []" "\<lparr>lines = [], read_err = None\<rparr>" "[]" "[]" "[]" "''cpu''" ENOENT 2
          "\<lparr>lines = [], read_err = None\<rparr>" "[]" "[]" "[]" ENOENT]
  by (simp add: host_pid_def host_v1_Open has_three_fields_def lists_controller_def
      split_line_1 split_line_2 split_line_3 split_line_4 Itoa_1 Itoa_2)

text \<open>
  C7, as stated, fails: a line lists the controller, but a line with fewer than three
  fields comes first, and the result is a parse error instead of the path.
\<close>

theorem cgroup_path_after_malformed_line_counterexample:
  "lists_controller ''cpu'' ''4:cpu,cpuacct:/system.slice/a:b''
   \<and> GetOwnV1CgroupPath (host_cg [''garbage'', ''4:cpu,cpuacct:/system.slice/a:b'']) ''cpu''
       = Inl (Errorf ''error parsing /proc/self/cgroup'' [])"
  by (simp add: lists_controller_def split_line_2 split_line_3 GetOwnV1CgroupPath_def
      parseV1CgroupController_def host_cg_def)

subsection \<open>Hierarchy Builder\<close>

lemma GetV1ControllerDirs_map:
  "GetV1ControllerDirs cgroups = map (\<lambda>(h, cs). Join cs '','') cgroups"
  by (induction cgroups rule: GetV1ControllerDirs.induct) auto

lemma map_of_linkControllers:
  "map_of (linkControllers tgt cs symlinks) c = (if c \<in> set cs then Some tgt else map_of symlinks c)"
  by (induction cs arbitrary: symlinks) (auto simp: update_conv')

lemma map_of_linkHierarchies:
  "map_of (linkHierarchies cgroups symlinks) c =
     (case filter (\<lambda>(h, cs). length cs > 1 \<and> c \<in> set cs) (rev cgroups) of
        [] \<Rightarrow> map_of symlinks c
      | (h, cs) # _ \<Rightarrow> Some (Join cs '',''))"
proof (induction cgroups arbitrary: symlinks rule: GetV1ControllerDirs.induct)
  case 1
  then show ?case by simp
next
  case (2 h cs cgroups)
  show ?case
    by (cases "filter (\<lambda>(h, cs). length cs > 1 \<and> c \<in> set cs) (rev cgroups)")
       (auto simp: "2.IH" map_of_linkControllers)
qed

lemma linkHierarchies_drop_single:
  "linkHierarchies (filter (\<lambda>(h, cs). length cs \<noteq> 1) cgroups) symlinks = linkHierarchies cgroups symlinks"
  by (induction cgroups arbitrary: symlinks rule: GetV1ControllerDirs.induct) auto

lemma distinct_linkControllers:
  "distinct (map fst symlinks) \<Longrightarrow> distinct (map fst (linkControllers tgt cs symlinks))"
  by (induction cs arbitrary: symlinks) (auto simp: distinct_update)

lemma distinct_linkHierarchies:
  "distinct (map fst symlinks) \<Longrightarrow> distinct (map fst (linkHierarchies cgroups symlinks))"
  by (induction cgroups arbitrary: symlinks rule: GetV1ControllerDirs.induct)
     (auto simp: distinct_linkControllers)

lemma andThen_None:
  "andThen f g t = (None, t') \<longleftrightarrow> (\<exists>t1. f t = (None, t1) \<and> g t1 = (None, t'))"
  by (auto simp: andThen_def split: prod.splits option.splits)

lemma extends_runD: "extends_run f \<Longrightarrow> f t = (r, t') \<Longrightarrow> \<exists>evs. t' = t @ evs"
  by (metis extends_run_def snd_conv)

lemma extends_run_andThen: "extends_run f \<Longrightarrow> extends_run g \<Longrightarrow> extends_run (andThen f g)"
proof -
  assume f: "extends_run f" and g: "extends_run g"
  show ?thesis
    unfolding extends_run_def
  proof
    fix t
    obtain r1 t1 where ft: "f t = (r1, t1)" by (cases "f t")
    from extends_runD[OF f ft] obtain e1 where t1: "t1 = t @ e1" ..
    show "\<exists>evs. snd (andThen f g t) = t @ evs"
    proof (cases r1)
      case None
      obtain r2 t2 where gt: "g t1 = (r2, t2)" by (cases "g t1")
      from extends_runD[OF g gt] obtain e2 where "t2 = t1 @ e2" ..
      with None ft gt t1 show ?thesis by (simp add: andThen_def)
    next
      case (Some e)
      with ft t1 show ?thesis by (simp add: andThen_def)
    qed
  qed
qed

lemma extends_run_unit: "extends_run (\<lambda>t. (None, t))"
  by (simp add: extends_run_def)

lemma extends_run_mkdirAll: "extends_run (mkdirAll k p m)"
  by (simp add: extends_run_def mkdirAll_def sys_def)

lemma extends_run_mountFsRO: "extends_run (mountFsRO k p)"
  by (simp add: extends_run_def mountFsRO_def sys_def Let_def split: option.splits)

lemma extends_run_mountSysfs: "extends_run (mountSysfs k p)"
  by (simp add: extends_run_def mountSysfs_def sys_def Let_def split: option.splits)

lemma extends_run_mountTmpfs: "extends_run (mountTmpfs k p c)"
  by (simp add: extends_run_def mountTmpfs_def sys_def Let_def split: option.splits)

lemma extends_run_createSymlink: "extends_run (createSymlink k d lt)"
  by (simp add: extends_run_def createSymlink_def sys_def Let_def split: option.splits)

lemma extends_run_createSymlinks: "extends_run (createSymlinks k d syms)"
  by (induction syms) (simp_all add: extends_run_unit extends_run_andThen extends_run_createSymlink)

lemma extends_run_mountController: "extends_run (mountController k root c)"
  unfolding mountController_def Let_def
  by (rule extends_run_andThen[OF extends_run_mkdirAll])
     (simp add: extends_run_def sys_def split: option.splits)

lemma extends_run_mountControllers: "extends_run (mountControllers k root cs)"
  by (induction cs) (simp_all add: extends_run_unit extends_run_andThen extends_run_mountController)

lemma extends_run_subset: "extends_run f \<Longrightarrow> f t = (r, t') \<Longrightarrow> set t \<subseteq> set t'"
  by (auto dest: extends_runD)

lemma mountController_None:
  "mountController k root c t = (None, t') \<Longrightarrow>
   \<exists>r. (Mount ''cgroup'' (filepath_Join [root, ''/sys/fs/cgroup'', c]) ''cgroup''
          (MS_NOSUID OR MS_NOEXEC OR MS_NODEV) c, r) \<in> set t' \<and> failure r = None"
  by (auto simp: mountController_def Let_def andThen_None sys_def split: option.splits)

lemma mountControllers_None:
  "mountControllers k root cs t = (None, t') \<Longrightarrow> c \<in> set cs \<Longrightarrow>
   \<exists>r. (Mount ''cgroup'' (filepath_Join [root, ''/sys/fs/cgroup'', c]) ''cgroup''
          (MS_NOSUID OR MS_NOEXEC OR MS_NODEV) c, r) \<in> set t' \<and> failure r = None"
proof (induction cs arbitrary: t)
  case Nil
  then show ?case by simp
next
  case (Cons a cs)
  from Cons.prems(1) obtain t1 where
    a: "mountController k root a t = (None, t1)" and
    r: "mountControllers k root cs t1 = (None, t')"
    by (auto simp: andThen_None)
  show ?case
  proof (cases "c = a")
    case True
    from mountController_None[OF a] True
    obtain rp where "(Mount ''cgroup'' (filepath_Join [root, ''/sys/fs/cgroup'', c]) ''cgroup''
          (MS_NOSUID OR MS_NOEXEC OR MS_NODEV) c, rp) \<in> set t1" "failure rp = None" by auto
    moreover have "set t1 \<subseteq> set t'"
      using extends_run_subset[OF extends_run_mountControllers r] .
    ultimately show ?thesis by blast
  next
    case False
    with Cons.prems(2) have "c \<in> set cs" by simp
    from Cons.IH[OF r this] show ?thesis .
  qed
qed

lemma createSymlink_None:
  "createSymlink k d lt t = (None, t') \<Longrightarrow>
   \<exists>r. (Symlink (snd lt) (filepath_Join [d, fst lt]), r) \<in> set t' \<and> failure r = None"
  by (auto simp: createSymlink_def Let_def sys_def split: option.splits)

lemma createSymlinks_None:
  "createSymlinks k d syms t = (None, t') \<Longrightarrow> lt \<in> set syms \<Longrightarrow>
   \<exists>r. (Symlink (snd lt) (filepath_Join [d, fst lt]), r) \<in> set t' \<and> failure r = None"
proof (induction syms arbitrary: t)
  case Nil
  then show ?case by simp
next
  case (Cons a syms)
  from Cons.prems(1) obtain t1 where
    a: "createSymlink k d a t = (None, t1)" and
    r: "createSymlinks k d syms t1 = (None, t')"
    by (auto simp: andThen_None)
  show ?case
  proof (cases "lt = a")
    case True
    from createSymlink_None[OF a] True
    obtain rp where "(Symlink (snd lt) (filepath_Join [d, fst lt]), rp) \<in> set t1"
      "failure rp = None" by auto
    moreover have "set t1 \<subseteq> set t'"
      using extends_run_subset[OF extends_run_createSymlinks r] .
    ultimately show ?thesis by blast
  next
    case False
    with Cons.prems(2) have "lt \<in> set syms" by simp
    from Cons.IH[OF r this] show ?thesis .
  qed
qed

lemma CreateV1Cgroups_None:
  "CreateV1Cgroups k root cgroups ctx t = (None, t') \<Longrightarrow>
   \<exists>t4 t5 t6. mountControllers k root (GetV1ControllerDirs cgroups) t4 = (None, t5)
     \<and> createSymlinks k (filepath_Join [root, ''/sys/fs/cgroup''])
           (getV1ControllerSymlinks cgroups) t5 = (None, t6)
     \<and> set t6 \<subseteq> set t'"
proof -
  assume "CreateV1Cgroups k root cgroups ctx t = (None, t')"
  then obtain t4 t5 t6 t7 where
    m: "mountControllers k root (GetV1ControllerDirs cgroups) t4 = (None, t5)" and
    s: "createSymlinks k (filepath_Join [root, ''/sys/fs/cgroup''])
           (getV1ControllerSymlinks cgroups) t5 = (None, t6)" and
    d: "mkdirAll k (filepath_Join [root, ''/sys/fs/cgroup/systemd'']) mode_0700 t6 = (None, t7)" and
    f: "mountFsRO k (filepath_Join [root, ''/sys/fs/cgroup'']) t7 = (None, t')"
    unfolding CreateV1Cgroups_def Let_def andThen_None by blast
  have "set t6 \<subseteq> set t7" using extends_run_subset[OF extends_run_mkdirAll d] .
  moreover have "set t7 \<subseteq> set t'" using extends_run_subset[OF extends_run_mountFsRO f] .
  ultimately show ?thesis using m s by blast
qed

lemma filter_hd_in: "filter P xs = a # as \<Longrightarrow> P a \<and> a \<in> set xs"
proof -
  assume "filter P xs = a # as"
  then have "a \<in> set (filter P xs)" by simp
  then show ?thesis by simp
qed

lemma symlink_of_member:
  "(h, cs) \<in> set cgroups \<Longrightarrow> length cs > 1 \<Longrightarrow> c \<in> set cs \<Longrightarrow>
   \<exists>h' cs'. (h', cs') \<in> set cgroups \<and> length cs' > 1 \<and> c \<in> set cs'
      \<and> map_of (getV1ControllerSymlinks cgroups) c = Some (Join cs' '','')"
proof -
  assume a: "(h, cs) \<in> set cgroups" "length cs > 1" "c \<in> set cs"
  let ?P = "\<lambda>(h, cs). length cs > 1 \<and> c \<in> set cs"
  from a have "(h, cs) \<in> set (filter ?P (rev cgroups))" by simp
  then have "filter ?P (rev cgroups) \<noteq> []" by (metis empty_iff empty_set)
  then obtain x xs where f: "filter ?P (rev cgroups) = x # xs"
    by (cases "filter ?P (rev cgroups)") simp_all
  obtain h' cs' where x: "x = (h', cs')" by (cases x)
  from filter_hd_in[OF f] x have "length cs' > 1 \<and> c \<in> set cs'" "(h', cs') \<in> set cgroups"
    by auto
  moreover have "map_of (getV1ControllerSymlinks cgroups) c = Some (Join cs' '','')"
    unfolding getV1ControllerSymlinks_def map_of_linkHierarchies f x by simp
  ultimately show ?thesis by blast
qed

lemma no_joint_no_symlink:
  "\<forall>h cs. (h, cs) \<in> set cgroups \<longrightarrow> length cs \<le> 1 \<Longrightarrow> linkHierarchies cgroups symlinks = symlinks"
proof (induction cgroups arbitrary: symlinks)
  case Nil
  then show ?case by simp
next
  case (Cons a cgroups)
  obtain h cs where a: "a = (h, cs)" by (cases a)
  from Cons.prems a have "length cs \<le> 1" by auto
  moreover from Cons.prems have "\<forall>h cs. (h, cs) \<in> set cgroups \<longrightarrow> length cs \<le> 1" by auto
  ultimately show ?case using Cons.IH a by simp
qed

lemma parsed_entry:
  "parseV1Cgroups sscanf f = Inr cgroups \<Longrightarrow> (h, cs) \<in> set cgroups \<Longrightarrow>
   cs = map var_controller
          (filter (\<lambda>sc. var_enabled sc = 1 \<and> var_hierarchy sc = h) (map sscanf (drop 1 (lines f))))"
proof -
  assume p: "parseV1Cgroups sscanf f = Inr cgroups" and m: "(h, cs) \<in> set cgroups"
  from p have c: "cgroups = scanLines sscanf (drop 1 (lines f)) []"
    by (auto simp: parseV1Cgroups_def split: option.splits)
  have "distinct (map fst cgroups)" unfolding c by (rule distinct_scanLines) simp
  with m have "map_of cgroups h = Some cs" by simp
  then show ?thesis unfolding c by (auto simp: map_of_scanLines Let_def split: if_splits)
qed

lemma andThen_fst_None:
  "(\<And>t. fst (f t) = None) \<Longrightarrow> (\<And>t. fst (g t) = None) \<Longrightarrow> fst (andThen f g t) = None"
proof -
  assume f: "\<And>t. fst (f t) = None" and g: "\<And>t. fst (g t) = None"
  obtain r t1 where ft: "f t = (r, t1)" by (cases "f t")
  with f[of t] have "r = None" by simp
  with ft have "andThen f g t = g t1" by (simp add: andThen_def)
  with g show ?thesis by simp
qed

lemma host_kernel_mkdirAll: "fst (mkdirAll host_kernel p m t) = None"
  by (simp add: mkdirAll_def sys_def host_kernel_def)

lemma host_kernel_mountSysfs: "fst (mountSysfs host_kernel p t) = None"
  by (simp add: mountSysfs_def sys_def host_kernel_def Let_def)

lemma host_kernel_mountTmpfs: "fst (mountTmpfs host_kernel p c t) = None"
  by (simp add: mountTmpfs_def sys_def host_kernel_def Let_def)

lemma host_kernel_mountFsRO: "fst (mountFsRO host_kernel p t) = None"
  by (simp add: mountFsRO_def sys_def host_kernel_def Let_def)

lemma host_kernel_mountController: "fst (mountController host_kernel root c t) = None"
  unfolding mountController_def Let_def
  by (rule andThen_fst_None) (simp_all add: mkdirAll_def sys_def host_kernel_def)

lemma host_kernel_mountControllers: "fst (mountControllers host_kernel root cs t) = None"
  by (induction cs arbitrary: t) (simp_all add: andThen_fst_None host_kernel_mountController)

lemma host_kernel_createSymlink: "fst (createSymlink host_kernel d lt t) = None"
  by (simp add: createSymlink_def sys_def host_kernel_def Let_def)

lemma host_kernel_createSymlinks: "fst (createSymlinks host_kernel d syms t) = None"
  by (induction syms arbitrary: t) (simp_all add: andThen_fst_None host_kernel_createSymlink)

lemma host_kernel_CreateV1Cgroups: "fst (CreateV1Cgroups host_kernel root cgroups ctx t) = None"
  unfolding CreateV1Cgroups_def Let_def
  by (intro andThen_fst_None host_kernel_mkdirAll host_kernel_mountSysfs host_kernel_mountTmpfs
      host_kernel_mountFsRO host_kernel_mountControllers host_kernel_createSymlinks)

lemma parse_host_hierarchies: "parseV1Cgroups Sscanf_table proc_cgroups = Inr host_hierarchies"
  by (simp add: parse_proc_cgroups host_hierarchies_def)

text \<open>
  C2. The directory names of a hierarchy map are the comma-joins of the controller lists of its
  entries, and the list of an entry that \<^const>\<open>parseV1Cgroups\<close> made holds the controllers of
  its hierarchy in the order of the lines of the table. A controller has a symlink exactly
  when an entry of more than one controller lists it, and the target is the comma-join of
  such an entry: of its own entry when no other entry lists the controller (the kernel
  attaches a controller to one hierarchy only). Entries of one controller change nothing in
  the symlinks, and a map of such entries only has none. When \<^const>\<open>CreateV1Cgroups\<close>
  returns no error, the run holds, for every entry, a successful cgroup mount on
  \<^verbatim>\<open><root>/sys/fs/cgroup/<name>\<close> with the name as the mount data, and for every
  symlink a successful \<^verbatim>\<open>Symlink\<close> call from \<^verbatim>\<open><root>/sys/fs/cgroup/<controller>\<close>
  to its target.
\<close>

theorem joint_hierarchies_are_named_and_linked:
  "GetV1ControllerDirs cgroups = map (\<lambda>(h, cs). Join cs '','') cgroups
   \<and> (parseV1Cgroups sscanf f = Inr cgroups \<and> (h, cs) \<in> set cgroups \<longrightarrow>
        cs = map var_controller
               (filter (\<lambda>sc. var_enabled sc = 1 \<and> var_hierarchy sc = h)
                  (map sscanf (drop 1 (lines f)))))
   \<and> map_of (getV1ControllerSymlinks cgroups) c =
        (case filter (\<lambda>(h, cs). length cs > 1 \<and> c \<in> set cs) (rev cgroups) of
           [] \<Rightarrow> None
         | (h, cs) # _ \<Rightarrow> Some (Join cs '',''))
   \<and> ((h, cs) \<in> set cgroups \<and> length cs > 1 \<and> c \<in> set cs \<longrightarrow>
        (\<exists>h' cs'. (h', cs') \<in> set cgroups \<and> length cs' > 1 \<and> c \<in> set cs'
           \<and> map_of (getV1ControllerSymlinks cgroups) c = Some (Join cs' '','')))
   \<and> ((h, cs) \<in> set cgroups \<and> length cs > 1 \<and> c \<in> set cs
        \<and> (\<forall>h' cs'. (h', cs') \<in> set cgroups \<and> c \<in> set cs' \<longrightarrow> cs' = cs) \<longrightarrow>
        map_of (getV1ControllerSymlinks cgroups) c = Some (Join cs '',''))
   \<and> getV1ControllerSymlinks (filter (\<lambda>(h, cs). length cs \<noteq> 1) cgroups)
        = getV1ControllerSymlinks cgroups
   \<and> ((\<forall>h cs. (h, cs) \<in> set cgroups \<longrightarrow> length cs \<le> 1) \<longrightarrow>
        getV1ControllerSymlinks cgroups = [])
   \<and> (CreateV1Cgroups k root cgroups ctx t = (None, t') \<and> (h, cs) \<in> set cgroups \<longrightarrow>
        (\<exists>r. (Mount ''cgroup'' (filepath_Join [root, ''/sys/fs/cgroup'', Join cs '','']) ''cgroup''
                 (MS_NOSUID OR MS_NOEXEC OR MS_NODEV) (Join cs '',''), r) \<in> set t'
             \<and> failure r = None))
   \<and> (CreateV1Cgroups k root cgroups ctx t = (None, t')
        \<and> map_of (getV1ControllerSymlinks cgroups) c = Some tgt \<longrightarrow>
        (\<exists>r. (Symlink tgt (filepath_Join [filepath_Join [root, ''/sys/fs/cgroup''], c]), r) \<in> set t'
             \<and> failure r = None))"
proof (intro conjI impI; (elim conjE)?)
  show "GetV1ControllerDirs cgroups = map (\<lambda>(h, cs). Join cs '','') cgroups"
    by (rule GetV1ControllerDirs_map)
next
  assume "parseV1Cgroups sscanf f = Inr cgroups" "(h, cs) \<in> set cgroups"
  then show "cs = map var_controller
               (filter (\<lambda>sc. var_enabled sc = 1 \<and> var_hierarchy sc = h)
                  (map sscanf (drop 1 (lines f))))"
    by (rule parsed_entry)
next
  show "map_of (getV1ControllerSymlinks cgroups) c =
        (case filter (\<lambda>(h, cs). length cs > 1 \<and> c \<in> set cs) (rev cgroups) of
           [] \<Rightarrow> None
         | (h, cs) # _ \<Rightarrow> Some (Join cs '',''))"
    by (simp add: getV1ControllerSymlinks_def map_of_linkHierarchies split: list.splits)
next
  assume "(h, cs) \<in> set cgroups" "length cs > 1" "c \<in> set cs"
  then show "\<exists>h' cs'. (h', cs') \<in> set cgroups \<and> length cs' > 1 \<and> c \<in> set cs'
           \<and> map_of (getV1ControllerSymlinks cgroups) c = Some (Join cs' '','')"
    by (rule symlink_of_member)
next
  assume a: "(h, cs) \<in> set cgroups" "length cs > 1" "c \<in> set cs"
    and u: "\<forall>h' cs'. (h', cs') \<in> set cgroups \<and> c \<in> set cs' \<longrightarrow> cs' = cs"
  from symlink_of_member[OF a] obtain h' cs' where
    "(h', cs') \<in> set cgroups" "c \<in> set cs'"
    "map_of (getV1ControllerSymlinks cgroups) c = Some (Join cs' '','')" by blast
  with u show "map_of (getV1ControllerSymlinks cgroups) c = Some (Join cs '','')" by blast
next
  show "getV1ControllerSymlinks (filter (\<lambda>(h, cs). length cs \<noteq> 1) cgroups)
        = getV1ControllerSymlinks cgroups"
    unfolding getV1ControllerSymlinks_def by (rule linkHierarchies_drop_single)
next
  assume "\<forall>h cs. (h, cs) \<in> set cgroups \<longrightarrow> length cs \<le> 1"
  then show "getV1ControllerSymlinks cgroups = []"
    by (simp add: getV1ControllerSymlinks_def no_joint_no_symlink)
next
  assume c: "CreateV1Cgroups k root cgroups ctx t = (None, t')" and m: "(h, cs) \<in> set cgroups"
  from CreateV1Cgroups_None[OF c] obtain t4 t5 t6 where
    mc: "mountControllers k root (GetV1ControllerDirs cgroups) t4 = (None, t5)" and
    cs: "createSymlinks k (filepath_Join [root, ''/sys/fs/cgroup''])
           (getV1ControllerSymlinks cgroups) t5 = (None, t6)" and
    sub: "set t6 \<subseteq> set t'" by blast
  from m have "Join cs '','' \<in> set (GetV1ControllerDirs cgroups)"
    by (force simp: GetV1ControllerDirs_map)
  from mountControllers_None[OF mc this] obtain r where
    "(Mount ''cgroup'' (filepath_Join [root, ''/sys/fs/cgroup'', Join cs '','']) ''cgroup''
                 (MS_NOSUID OR MS_NOEXEC OR MS_NODEV) (Join cs '',''), r) \<in> set t5"
    "failure r = None" by blast
  moreover have "set t5 \<subseteq> set t6" using extends_run_subset[OF extends_run_createSymlinks cs] .
  ultimately show "\<exists>r. (Mount ''cgroup'' (filepath_Join [root, ''/sys/fs/cgroup'', Join cs '','']) ''cgroup''
                 (MS_NOSUID OR MS_NOEXEC OR MS_NODEV) (Join cs '',''), r) \<in> set t'
             \<and> failure r = None" using sub by blast
next
  assume c: "CreateV1Cgroups k root cgroups ctx t = (None, t')"
    and m: "map_of (getV1ControllerSymlinks cgroups) c = Some tgt"
  from CreateV1Cgroups_None[OF c] obtain t4 t5 t6 where
    cs: "createSymlinks k (filepath_Join [root, ''/sys/fs/cgroup''])
           (getV1ControllerSymlinks cgroups) t5 = (None, t6)" and
    sub: "set t6 \<subseteq> set t'" by blast
  from m have "(c, tgt) \<in> set (getV1ControllerSymlinks cgroups)" by (rule map_of_SomeD)
  from createSymlinks_None[OF cs this] sub
  show "\<exists>r. (Symlink tgt (filepath_Join [filepath_Join [root, ''/sys/fs/cgroup''], c]), r) \<in> set t'
             \<and> failure r = None" by auto
qed

theorem joint_hierarchies_are_named_and_linked_witness:
  "parseV1Cgroups Sscanf_table proc_cgroups = Inr host_hierarchies
   \<and> GetV1ControllerDirs host_hierarchies = [''cpu,cpuacct'', ''memory'']
   \<and> map_of (getV1ControllerSymlinks host_hierarchies) ''cpu'' = Some ''cpu,cpuacct''
   \<and> map_of (getV1ControllerSymlinks host_hierarchies) ''cpuacct'' = Some ''cpu,cpuacct''
   \<and> map_of (getV1ControllerSymlinks host_hierarchies) ''memory'' = None
   \<and> getV1ControllerSymlinks [(5, [''memory''])] = []
   \<and> fst (CreateV1Cgroups host_kernel ''/rootfs'' host_hierarchies [] []) = None
   \<and> (\<exists>r. (Mount ''cgroup'' (filepath_Join [''/rootfs'', ''/sys/fs/cgroup'', ''cpu,cpuacct'']) ''cgroup''
              (MS_NOSUID OR MS_NOEXEC OR MS_NODEV) ''cpu,cpuacct'', r)
             \<in> set (snd (CreateV1Cgroups host_kernel ''/rootfs'' host_hierarchies [] []))
           \<and> failure r = None)
   \<and> (\<exists>r. (Symlink ''cpu,cpuacct''
              (filepath_Join [filepath_Join [''/rootfs'', ''/sys/fs/cgroup''], ''cpu'']), r)
             \<in> set (snd (CreateV1Cgroups host_kernel ''/rootfs'' host_hierarchies [] []))
           \<and> failure r = None)"
proof -
  have run: "CreateV1Cgroups host_kernel ''/rootfs'' host_hierarchies [] []
      = (None, snd (CreateV1Cgroups host_kernel ''/rootfs'' host_hierarchies [] []))"
    using host_kernel_CreateV1Cgroups[of "''/rootfs''" host_hierarchies "[]" "[]"]
    by (simp add: prod_eq_iff)
  have mem: "(3, [''cpu'', ''cpuacct'']) \<in> set host_hierarchies"
    by (simp add: host_hierarchies_def)
  have j: "Join [''cpu'', ''cpuacct''] '','' = ''cpu,cpuacct''" by simp
  have f1: "filter (\<lambda>(h, cs). 1 < length cs \<and> ''cpu'' \<in> set cs) (rev host_hierarchies)
      = [(3, [''cpu'', ''cpuacct''])]"
    by (simp add: host_hierarchies_def)
  have f2: "filter (\<lambda>(h, cs). 1 < length cs \<and> ''memory'' \<in> set cs) (rev host_hierarchies) = []"
    by (simp add: host_hierarchies_def)
  have f3: "filter (\<lambda>(h, cs). 1 < length cs \<and> ''cpuacct'' \<in> set cs) (rev host_hierarchies)
      = [(3, [''cpu'', ''cpuacct''])]"
    by (simp add: host_hierarchies_def)
  have single: "\<forall>h cs. (h, cs) \<in> set [(5 :: int, [''memory''])] \<longrightarrow> length cs \<le> 1" by simp
  note a = joint_hierarchies_are_named_and_linked
    [where cgroups = host_hierarchies and sscanf = Sscanf_table and f = proc_cgroups
       and h = 3 and cs = "[''cpu'', ''cpuacct'']" and c = "''cpu''" and k = host_kernel
       and root = "''/rootfs''" and ctx = "[]" and t = "[]" and tgt = "''cpu,cpuacct''"
       and t' = "snd (CreateV1Cgroups host_kernel ''/rootfs'' host_hierarchies [] [])"]
  note b = joint_hierarchies_are_named_and_linked
    [where cgroups = host_hierarchies and sscanf = Sscanf_table and f = proc_cgroups
       and h = 3 and cs = "[''cpu'', ''cpuacct'']" and c = "''cpuacct''" and k = host_kernel
       and root = "''/rootfs''" and ctx = "[]" and t = "[]" and tgt = "''cpu,cpuacct''"
       and t' = "snd (CreateV1Cgroups host_kernel ''/rootfs'' host_hierarchies [] [])"]
  note c = joint_hierarchies_are_named_and_linked
    [where cgroups = host_hierarchies and sscanf = Sscanf_table and f = proc_cgroups
       and h = 3 and cs = "[''cpu'', ''cpuacct'']" and c = "''memory''" and k = host_kernel
       and root = "''/rootfs''" and ctx = "[]" and t = "[]" and tgt = "''cpu,cpuacct''"
       and t' = "snd (CreateV1Cgroups host_kernel ''/rootfs'' host_hierarchies [] [])"]
  note d = joint_hierarchies_are_named_and_linked
    [where cgroups = "[(5, [''memory''])]" and sscanf = Sscanf_table and f = proc_cgroups
       and h = 5 and cs = "[''memory'']" and c = "''memory''" and k = host_kernel
       and root = "''/rootfs''" and ctx = "[]" and t = "[]" and tgt = "''memory''"
       and t' = "[]"]
  have dirs: "GetV1ControllerDirs host_hierarchies = [''cpu,cpuacct'', ''memory'']"
    using a[THEN conjunct1] by (simp add: host_hierarchies_def)
  have l1: "map_of (getV1ControllerSymlinks host_hierarchies) ''cpu'' = Some ''cpu,cpuacct''"
    using a[THEN conjunct2, THEN conjunct2, THEN conjunct1] unfolding f1 by simp
  have l2: "map_of (getV1ControllerSymlinks host_hierarchies) ''cpuacct'' = Some ''cpu,cpuacct''"
    using b[THEN conjunct2, THEN conjunct2, THEN conjunct1] unfolding f3 by simp
  have l3: "map_of (getV1ControllerSymlinks host_hierarchies) ''memory'' = None"
    using c[THEN conjunct2, THEN conjunct2, THEN conjunct1] unfolding f2 by simp
  have l4: "getV1ControllerSymlinks [(5, [''memory''])] = []"
    using d single by blast
  have m: "\<exists>r. (Mount ''cgroup'' (filepath_Join [''/rootfs'', ''/sys/fs/cgroup'', ''cpu,cpuacct'']) ''cgroup''
              (MS_NOSUID OR MS_NOEXEC OR MS_NODEV) ''cpu,cpuacct'', r)
             \<in> set (snd (CreateV1Cgroups host_kernel ''/rootfs'' host_hierarchies [] []))
           \<and> failure r = None"
  proof -
    from a run mem
    have "\<exists>r. (Mount ''cgroup''
              (filepath_Join [''/rootfs'', ''/sys/fs/cgroup'', Join [''cpu'', ''cpuacct''] '','']) ''cgroup''
              (MS_NOSUID OR MS_NOEXEC OR MS_NODEV) (Join [''cpu'', ''cpuacct''] '',''), r)
             \<in> set (snd (CreateV1Cgroups host_kernel ''/rootfs'' host_hierarchies [] []))
           \<and> failure r = None"
      by blast
    then show ?thesis unfolding j .
  qed
  have s: "\<exists>r. (Symlink ''cpu,cpuacct''
              (filepath_Join [filepath_Join [''/rootfs'', ''/sys/fs/cgroup''], ''cpu'']), r)
             \<in> set (snd (CreateV1Cgroups host_kernel ''/rootfs'' host_hierarchies [] []))
           \<and> failure r = None"
    using a run l1 by blast
  show ?thesis
    using parse_host_hierarchies dirs l1 l2 l3 l4 m s
      host_kernel_CreateV1Cgroups[of "''/rootfs''" host_hierarchies "[]" "[]"]
    by blast
qed

lemma stops_at_failure_andThen:
  assumes f: "stops_at_failure root f" and g: "stops_at_failure root g"
  shows "stops_at_failure root (andThen f g)"
  unfolding stops_at_failure_def
proof
  fix t
  from f obtain e1 where
    e1: "snd (f t) = t @ e1"
        "\<forall>ev \<in> set (butlast e1). \<not> fatal root ev"
        "\<forall>ev \<in> set e1. \<not> is_unmount (fst ev)"
        "case fst (f t) of
           None \<Rightarrow> \<forall>ev \<in> set e1. \<not> fatal root ev
         | Some err \<Rightarrow>
             e1 \<noteq> [] \<and> fatal root (last e1)
             \<and> (\<exists>e. snd (last e1) = Failed e \<and> err = report (fst (last e1)) e)"
    unfolding stops_at_failure_def by blast
  let ?goal = "\<lambda>x. \<exists>evs. snd x = t @ evs
        \<and> (\<forall>ev \<in> set (butlast evs). \<not> fatal root ev)
        \<and> (\<forall>ev \<in> set evs. \<not> is_unmount (fst ev))
        \<and> (case fst x of
             None \<Rightarrow> \<forall>ev \<in> set evs. \<not> fatal root ev
           | Some err \<Rightarrow>
               evs \<noteq> [] \<and> fatal root (last evs)
               \<and> (\<exists>e. snd (last evs) = Failed e \<and> err = report (fst (last evs)) e))"
  show "?goal (andThen f g t)"
  proof (cases "fst (f t)")
    case (Some err)
    then have "andThen f g t = f t" by (cases "f t") (simp add: andThen_def)
    with e1 show ?thesis by auto
  next
    case None
    then have a: "andThen f g t = g (t @ e1)" using e1(1) by (cases "f t") (simp add: andThen_def)
    from None e1(4) have ok1: "\<forall>ev \<in> set e1. \<not> fatal root ev" by simp
    from g obtain e2 where
      e2: "snd (g (t @ e1)) = (t @ e1) @ e2"
          "\<forall>ev \<in> set (butlast e2). \<not> fatal root ev"
          "\<forall>ev \<in> set e2. \<not> is_unmount (fst ev)"
          "case fst (g (t @ e1)) of
             None \<Rightarrow> \<forall>ev \<in> set e2. \<not> fatal root ev
           | Some err \<Rightarrow>
               e2 \<noteq> [] \<and> fatal root (last e2)
               \<and> (\<exists>e. snd (last e2) = Failed e \<and> err = report (fst (last e2)) e)"
      unfolding stops_at_failure_def by blast
    have b: "\<forall>ev \<in> set (butlast (e1 @ e2)). \<not> fatal root ev"
      using ok1 e2(2) by (auto simp: butlast_append dest: in_set_butlastD)
    have c: "\<forall>ev \<in> set (e1 @ e2). \<not> is_unmount (fst ev)" using e1(3) e2(3) by auto
    have d: "case fst (g (t @ e1)) of
             None \<Rightarrow> \<forall>ev \<in> set (e1 @ e2). \<not> fatal root ev
           | Some err \<Rightarrow>
               e1 @ e2 \<noteq> [] \<and> fatal root (last (e1 @ e2))
               \<and> (\<exists>e. snd (last (e1 @ e2)) = Failed e \<and> err = report (fst (last (e1 @ e2))) e)"
      using e2(4) ok1 by (auto split: option.splits)
    show ?thesis unfolding a
      by (rule exI[of _ "e1 @ e2"]) (use e2(1) b c d in simp)
  qed
qed

lemma failure_Some: "failure r = Some e \<longleftrightarrow> r = Failed e"
  by (cases r) auto

lemma stops_at_failure_unit: "stops_at_failure root (\<lambda>t. (None, t))"
  by (simp add: stops_at_failure_def)

lemma stops_at_failure_mkdirAll: "stops_at_failure root (mkdirAll k p m)"
  unfolding stops_at_failure_def
proof
  fix t
  show "\<exists>evs. snd (mkdirAll k p m t) = t @ evs
        \<and> (\<forall>ev \<in> set (butlast evs). \<not> fatal root ev)
        \<and> (\<forall>ev \<in> set evs. \<not> is_unmount (fst ev))
        \<and> (case fst (mkdirAll k p m t) of
             None \<Rightarrow> \<forall>ev \<in> set evs. \<not> fatal root ev
           | Some err \<Rightarrow>
               evs \<noteq> [] \<and> fatal root (last evs)
               \<and> (\<exists>e. snd (last evs) = Failed e \<and> err = report (fst (last evs)) e))"
    by (rule exI[of _ "[(MkdirAll p m, k t (MkdirAll p m))]"])
       (auto simp: mkdirAll_def sys_def fatal_def sysfs_busy_def failure_Some split: option.splits)
qed

lemma stops_at_failure_mountSysfs:
  "stops_at_failure root (mountSysfs k (filepath_Join [root, ''/sys'']))"
  unfolding stops_at_failure_def
proof
  fix t
  let ?c = "Mount ''sysfs'' (filepath_Join [root, ''/sys'']) ''sysfs'' (MS_NOSUID OR MS_NOEXEC OR MS_NODEV) []"
  show "\<exists>evs. snd (mountSysfs k (filepath_Join [root, ''/sys'']) t) = t @ evs
        \<and> (\<forall>ev \<in> set (butlast evs). \<not> fatal root ev)
        \<and> (\<forall>ev \<in> set evs. \<not> is_unmount (fst ev))
        \<and> (case fst (mountSysfs k (filepath_Join [root, ''/sys'']) t) of
             None \<Rightarrow> \<forall>ev \<in> set evs. \<not> fatal root ev
           | Some err \<Rightarrow>
               evs \<noteq> [] \<and> fatal root (last evs)
               \<and> (\<exists>e. snd (last evs) = Failed e \<and> err = report (fst (last evs)) e))"
    by (rule exI[of _ "[(?c, k t ?c)]"])
       (auto simp: mountSysfs_def Let_def sys_def fatal_def sysfs_busy_def failure_Some
             split: option.splits)
qed

lemma stops_at_failure_mountTmpfs: "stops_at_failure root (mountTmpfs k p ctx)"
  unfolding stops_at_failure_def
proof
  fix t
  let ?c = "Mount ''tmpfs'' p ''tmpfs'' (MS_NOSUID OR MS_NOEXEC OR MS_NODEV OR MS_STRICTATIME)
              (if ctx \<noteq> [] then ''mode=755,context='' @ [CHR 0x22] @ ctx @ [CHR 0x22] else ''mode=755'')"
  show "\<exists>evs. snd (mountTmpfs k p ctx t) = t @ evs
        \<and> (\<forall>ev \<in> set (butlast evs). \<not> fatal root ev)
        \<and> (\<forall>ev \<in> set evs. \<not> is_unmount (fst ev))
        \<and> (case fst (mountTmpfs k p ctx t) of
             None \<Rightarrow> \<forall>ev \<in> set evs. \<not> fatal root ev
           | Some err \<Rightarrow>
               evs \<noteq> [] \<and> fatal root (last evs)
               \<and> (\<exists>e. snd (last evs) = Failed e \<and> err = report (fst (last evs)) e))"
    by (rule exI[of _ "[(?c, k t ?c)]"])
       (auto simp: mountTmpfs_def Let_def sys_def fatal_def sysfs_busy_def failure_Some
             split: option.splits)
qed

lemma stops_at_failure_mountFsRO: "stops_at_failure root (mountFsRO k p)"
  unfolding stops_at_failure_def
proof
  fix t
  let ?c = "Mount p p [] (MS_BIND OR MS_REMOUNT OR MS_NOSUID OR MS_NOEXEC OR MS_NODEV OR MS_RDONLY) []"
  show "\<exists>evs. snd (mountFsRO k p t) = t @ evs
        \<and> (\<forall>ev \<in> set (butlast evs). \<not> fatal root ev)
        \<and> (\<forall>ev \<in> set evs. \<not> is_unmount (fst ev))
        \<and> (case fst (mountFsRO k p t) of
             None \<Rightarrow> \<forall>ev \<in> set evs. \<not> fatal root ev
           | Some err \<Rightarrow>
               evs \<noteq> [] \<and> fatal root (last evs)
               \<and> (\<exists>e. snd (last evs) = Failed e \<and> err = report (fst (last evs)) e))"
    by (rule exI[of _ "[(?c, k t ?c)]"])
       (auto simp: mountFsRO_def Let_def sys_def fatal_def sysfs_busy_def failure_Some
             split: option.splits)
qed

lemma stops_at_failure_cgroup_mount:
  "stops_at_failure root
     (\<lambda>t. case sys k (Mount ''cgroup'' p ''cgroup'' fl c) t of
             (r, t') \<Rightarrow>
               (case failure r of
                  Some err \<Rightarrow> (Some (Wrap (Errorf ''error mounting %q'' [p]) (Errno err)), t')
                | None \<Rightarrow> (None, t')))"
  unfolding stops_at_failure_def
proof
  fix t
  let ?c = "Mount ''cgroup'' p ''cgroup'' fl c"
  let ?f = "\<lambda>t. case sys k (Mount ''cgroup'' p ''cgroup'' fl c) t of
             (r, t') \<Rightarrow>
               (case failure r of
                  Some err \<Rightarrow> (Some (Wrap (Errorf ''error mounting %q'' [p]) (Errno err)), t')
                | None \<Rightarrow> (None, t'))"
  show "\<exists>evs. snd (?f t) = t @ evs
        \<and> (\<forall>ev \<in> set (butlast evs). \<not> fatal root ev)
        \<and> (\<forall>ev \<in> set evs. \<not> is_unmount (fst ev))
        \<and> (case fst (?f t) of
             None \<Rightarrow> \<forall>ev \<in> set evs. \<not> fatal root ev
           | Some err \<Rightarrow>
               evs \<noteq> [] \<and> fatal root (last evs)
               \<and> (\<exists>e. snd (last evs) = Failed e \<and> err = report (fst (last evs)) e))"
    by (rule exI[of _ "[(?c, k t ?c)]"])
       (auto simp: sys_def fatal_def sysfs_busy_def failure_Some split: option.splits)
qed

lemma stops_at_failure_mountController: "stops_at_failure root (mountController k r c)"
  unfolding mountController_def Let_def
  by (rule stops_at_failure_andThen[OF stops_at_failure_mkdirAll stops_at_failure_cgroup_mount])

lemma stops_at_failure_mountControllers: "stops_at_failure root (mountControllers k r cs)"
  by (induction cs)
     (simp_all add: stops_at_failure_unit stops_at_failure_andThen stops_at_failure_mountController)

lemma stops_at_failure_createSymlink: "stops_at_failure root (createSymlink k d lt)"
  unfolding stops_at_failure_def
proof
  fix t
  let ?c = "Symlink (snd lt) (filepath_Join [d, fst lt])"
  show "\<exists>evs. snd (createSymlink k d lt t) = t @ evs
        \<and> (\<forall>ev \<in> set (butlast evs). \<not> fatal root ev)
        \<and> (\<forall>ev \<in> set evs. \<not> is_unmount (fst ev))
        \<and> (case fst (createSymlink k d lt t) of
             None \<Rightarrow> \<forall>ev \<in> set evs. \<not> fatal root ev
           | Some err \<Rightarrow>
               evs \<noteq> [] \<and> fatal root (last evs)
               \<and> (\<exists>e. snd (last evs) = Failed e \<and> err = report (fst (last evs)) e))"
    by (rule exI[of _ "[(?c, k t ?c)]"])
       (auto simp: createSymlink_def Let_def sys_def fatal_def sysfs_busy_def failure_Some
             split: option.splits)
qed

lemma stops_at_failure_createSymlinks: "stops_at_failure root (createSymlinks k d syms)"
  by (induction syms)
     (simp_all add: stops_at_failure_unit stops_at_failure_andThen stops_at_failure_createSymlink)

lemma stops_at_failure_CreateV1Cgroups: "stops_at_failure root (CreateV1Cgroups k root cgroups ctx)"
  unfolding CreateV1Cgroups_def Let_def
  by (intro stops_at_failure_andThen stops_at_failure_mkdirAll stops_at_failure_mountSysfs
      stops_at_failure_mountTmpfs stops_at_failure_mountFsRO stops_at_failure_mountControllers
      stops_at_failure_createSymlinks)

lemma andThen_last:
  assumes f: "extends_run f"
    and g: "\<And>t t'. g t = (None, t') \<Longrightarrow> length t < length t' \<and> P (last t')"
    and r: "andThen f g t = (None, t')"
  shows "length t < length t' \<and> P (last t')"
proof -
  from r obtain t1 where 1: "f t = (None, t1)" and 2: "g t1 = (None, t')"
    unfolding andThen_None by blast
  from extends_runD[OF f 1] have "length t \<le> length t1" by auto
  with g[OF 2] show ?thesis by auto
qed

lemma mountFsRO_last:
  "mountFsRO k p t = (None, t') \<Longrightarrow>
   length t < length t' \<and>
   (\<lambda>ev. fst ev = Mount p p [] (MS_BIND OR MS_REMOUNT OR MS_NOSUID OR MS_NOEXEC OR MS_NODEV OR MS_RDONLY) []
      \<and> failure (snd ev) = None) (last t')"
  by (auto simp: mountFsRO_def Let_def sys_def split: option.splits)


lemma CreateV1Cgroups_last:
  assumes c: "CreateV1Cgroups k root cgroups ctx t = (None, t')"
  shows "length t < length t' \<and>
     fst (last t') = Mount (filepath_Join [root, ''/sys/fs/cgroup'']) (filepath_Join [root, ''/sys/fs/cgroup'']) []
                 (MS_BIND OR MS_REMOUNT OR MS_NOSUID OR MS_NOEXEC OR MS_NODEV OR MS_RDONLY) []
     \<and> failure (snd (last t')) = None"
proof -
  from c obtain t1 t2 t3 t4 t5 t6 t7 where
    s1: "mkdirAll k (filepath_Join [root, ''/sys'']) mode_0700 t = (None, t1)" and
    s2: "mountSysfs k (filepath_Join [root, ''/sys'']) t1 = (None, t2)" and
    s3: "mkdirAll k (filepath_Join [root, ''/sys/fs/cgroup'']) mode_0700 t2 = (None, t3)" and
    s4: "mountTmpfs k (filepath_Join [root, ''/sys/fs/cgroup'']) ctx t3 = (None, t4)" and
    s5: "mountControllers k root (GetV1ControllerDirs cgroups) t4 = (None, t5)" and
    s6: "createSymlinks k (filepath_Join [root, ''/sys/fs/cgroup''])
           (getV1ControllerSymlinks cgroups) t5 = (None, t6)" and
    s7: "mkdirAll k (filepath_Join [root, ''/sys/fs/cgroup/systemd'']) mode_0700 t6 = (None, t7)" and
    s8: "mountFsRO k (filepath_Join [root, ''/sys/fs/cgroup'']) t7 = (None, t')"
    unfolding CreateV1Cgroups_def Let_def andThen_None by blast
  have "length t \<le> length t1" using extends_runD[OF extends_run_mkdirAll s1] by auto
  also have "\<dots> \<le> length t2" using extends_runD[OF extends_run_mountSysfs s2] by auto
  also have "\<dots> \<le> length t3" using extends_runD[OF extends_run_mkdirAll s3] by auto
  also have "\<dots> \<le> length t4" using extends_runD[OF extends_run_mountTmpfs s4] by auto
  also have "\<dots> \<le> length t5" using extends_runD[OF extends_run_mountControllers s5] by auto
  also have "\<dots> \<le> length t6" using extends_runD[OF extends_run_createSymlinks s6] by auto
  also have "\<dots> \<le> length t7" using extends_runD[OF extends_run_mkdirAll s7] by auto
  finally have "length t \<le> length t7" .
  with mountFsRO_last[OF s8] show ?thesis by simp
qed

lemma tmpfs_denied_run:
  "CreateV1Cgroups tmpfs_denied ''/rootfs'' host_hierarchies [] [] =
     (Some (Wrap (Errorf ''error mounting %q'' [''/rootfs/sys/fs/cgroup'']) (Errno EACCES)),
      [(MkdirAll ''/rootfs/sys'' mode_0700, Done),
       (Mount ''sysfs'' ''/rootfs/sys'' ''sysfs'' (MS_NOSUID OR MS_NOEXEC OR MS_NODEV) [], Failed EBUSY),
       (MkdirAll ''/rootfs/sys/fs/cgroup'' mode_0700, Done),
       (Mount ''tmpfs'' ''/rootfs/sys/fs/cgroup'' ''tmpfs''
          (MS_NOSUID OR MS_NOEXEC OR MS_NODEV OR MS_STRICTATIME) ''mode=755'', Failed EACCES)])"
  by (simp add: CreateV1Cgroups_def Let_def andThen_def mkdirAll_def mountSysfs_def mountTmpfs_def
      sys_def tmpfs_denied_def filepath_Clean_def)

lemma host_kernel_run:
  "CreateV1Cgroups host_kernel ''/rootfs'' host_hierarchies [] [] =
     (None,
      [(MkdirAll ''/rootfs/sys'' mode_0700, Done),
       (Mount ''sysfs'' ''/rootfs/sys'' ''sysfs'' (MS_NOSUID OR MS_NOEXEC OR MS_NODEV) [], Failed EBUSY),
       (MkdirAll ''/rootfs/sys/fs/cgroup'' mode_0700, Done),
       (Mount ''tmpfs'' ''/rootfs/sys/fs/cgroup'' ''tmpfs''
          (MS_NOSUID OR MS_NOEXEC OR MS_NODEV OR MS_STRICTATIME) ''mode=755'', Done),
       (MkdirAll ''/rootfs/sys/fs/cgroup/cpu,cpuacct'' mode_0700, Done),
       (Mount ''cgroup'' ''/rootfs/sys/fs/cgroup/cpu,cpuacct'' ''cgroup''
          (MS_NOSUID OR MS_NOEXEC OR MS_NODEV) ''cpu,cpuacct'', Done),
       (MkdirAll ''/rootfs/sys/fs/cgroup/memory'' mode_0700, Done),
       (Mount ''cgroup'' ''/rootfs/sys/fs/cgroup/memory'' ''cgroup''
          (MS_NOSUID OR MS_NOEXEC OR MS_NODEV) ''memory'', Done),
       (Symlink ''cpu,cpuacct'' ''/rootfs/sys/fs/cgroup/cpu'', Done),
       (Symlink ''cpu,cpuacct'' ''/rootfs/sys/fs/cgroup/cpuacct'', Done),
       (MkdirAll ''/rootfs/sys/fs/cgroup/systemd'' mode_0700, Done),
       (Mount ''/rootfs/sys/fs/cgroup'' ''/rootfs/sys/fs/cgroup'' []
          (MS_BIND OR MS_REMOUNT OR MS_NOSUID OR MS_NOEXEC OR MS_NODEV OR MS_RDONLY) [], Done)])"
  by (simp add: CreateV1Cgroups_def Let_def andThen_def mkdirAll_def mountSysfs_def mountTmpfs_def
      mountController_def createSymlink_def mountFsRO_def getV1ControllerSymlinks_def
      host_hierarchies_def sys_def host_kernel_def filepath_Clean_def)

text \<open>
  C6. Every run of \<^const>\<open>CreateV1Cgroups\<close> adds calls to the run it starts from, at least
  one, and none of them is an unmount. A failed call is fatal unless it is the sysfs mount on
  \<^verbatim>\<open><root>/sys\<close> failing with \<^verbatim>\<open>EBUSY\<close>. That failure is never the last call: the build
  goes on. No call but the last one is fatal, so nothing is called after a fatal failure;
  the build returns no error exactly when no call is fatal, and then its last call is the
  successful read-only remount of \<^verbatim>\<open><root>/sys/fs/cgroup\<close>. When it returns an error the last
  call is fatal and the error reports it: a failed mount is wrapped in the message
  \<^verbatim>\<open>error mounting %q\<close> (\<^verbatim>\<open>error remounting RO %q\<close> for the remount) with the target of
  that mount.
\<close>

theorem mount_failure_aborts_the_build:
  assumes run: "CreateV1Cgroups k root cgroups ctx t = (res, t')"
  shows "\<exists>evs. t' = t @ evs \<and> evs \<noteq> []
      \<and> last evs \<noteq> sysfs_busy root
      \<and> (\<forall>ev \<in> set (butlast evs). \<not> fatal root ev)
      \<and> (\<forall>ev \<in> set evs. \<not> is_unmount (fst ev))
      \<and> (res = None \<longleftrightarrow> (\<forall>ev \<in> set evs. \<not> fatal root ev))
      \<and> (res = None \<longrightarrow>
            fst (last evs) =
              Mount (filepath_Join [root, ''/sys/fs/cgroup'']) (filepath_Join [root, ''/sys/fs/cgroup'']) []
                (MS_BIND OR MS_REMOUNT OR MS_NOSUID OR MS_NOEXEC OR MS_NODEV OR MS_RDONLY) []
            \<and> failure (snd (last evs)) = None)
      \<and> (\<forall>err. res = Some err \<longrightarrow>
            fatal root (last evs)
            \<and> (\<exists>e. snd (last evs) = Failed e \<and> err = report (fst (last evs)) e))
      \<and> (\<forall>source target fstype flags data e.
            res \<noteq> None \<and> last evs = (Mount source target fstype flags data, Failed e) \<longrightarrow>
            res = Some (Wrap (Errorf (if fstype = [] then ''error remounting RO %q''
                                      else ''error mounting %q'') [target]) (Errno e)))"
proof -
  have "\<exists>evs. snd (CreateV1Cgroups k root cgroups ctx t) = t @ evs
        \<and> (\<forall>ev \<in> set (butlast evs). \<not> fatal root ev)
        \<and> (\<forall>ev \<in> set evs. \<not> is_unmount (fst ev))
        \<and> (case fst (CreateV1Cgroups k root cgroups ctx t) of
             None \<Rightarrow> \<forall>ev \<in> set evs. \<not> fatal root ev
           | Some err \<Rightarrow>
               evs \<noteq> [] \<and> fatal root (last evs)
               \<and> (\<exists>e. snd (last evs) = Failed e \<and> err = report (fst (last evs)) e))"
    using stops_at_failure_CreateV1Cgroups[of root k cgroups ctx]
    unfolding stops_at_failure_def by (rule spec)
  then obtain evs where
    e1: "t' = t @ evs" and
    e2: "\<forall>ev \<in> set (butlast evs). \<not> fatal root ev" and
    e3: "\<forall>ev \<in> set evs. \<not> is_unmount (fst ev)" and
    e4: "case res of
          None \<Rightarrow> \<forall>ev \<in> set evs. \<not> fatal root ev
        | Some err \<Rightarrow>
            evs \<noteq> [] \<and> fatal root (last evs)
            \<and> (\<exists>e. snd (last evs) = Failed e \<and> err = report (fst (last evs)) e)"
    unfolding run fst_conv snd_conv by (elim exE conjE)
  have last_None: "evs \<noteq> [] \<and> fst (last evs) =
              Mount (filepath_Join [root, ''/sys/fs/cgroup'']) (filepath_Join [root, ''/sys/fs/cgroup'']) []
                (MS_BIND OR MS_REMOUNT OR MS_NOSUID OR MS_NOEXEC OR MS_NODEV OR MS_RDONLY) []
            \<and> failure (snd (last evs)) = None" if n: "res = None"
  proof -
    from run n have "CreateV1Cgroups k root cgroups ctx t = (None, t')" by simp
    from CreateV1Cgroups_last[OF this] have
      l: "length t < length t'" and
      m: "fst (last t') = Mount (filepath_Join [root, ''/sys/fs/cgroup'']) (filepath_Join [root, ''/sys/fs/cgroup'']) []
                 (MS_BIND OR MS_REMOUNT OR MS_NOSUID OR MS_NOEXEC OR MS_NODEV OR MS_RDONLY) []" and
      f: "failure (snd (last t')) = None" by blast+
    from l e1 have ne: "evs \<noteq> []" by auto
    then have "last t' = last evs" unfolding e1 by simp
    with ne m f show ?thesis by simp
  qed
  have some: "evs \<noteq> [] \<and> fatal root (last evs)
            \<and> (\<exists>e. snd (last evs) = Failed e \<and> err = report (fst (last evs)) e)" if "res = Some err" for err
    using e4 that by simp
  have ne: "evs \<noteq> []"
  proof (cases res)
    case None
    with last_None show ?thesis by blast
  next
    case (Some err)
    with some show ?thesis by blast
  qed
  have nb: "last evs \<noteq> sysfs_busy root"
  proof (cases res)
    case None
    from last_None[OF None] have "fst (last evs) \<noteq> fst (sysfs_busy root)"
      by (simp add: sysfs_busy_def)
    then show ?thesis by auto
  next
    case (Some err)
    from some[OF Some] have "fatal root (last evs)" by blast
    then show ?thesis by (simp add: fatal_def)
  qed
  have iff: "res = None \<longleftrightarrow> (\<forall>ev \<in> set evs. \<not> fatal root ev)"
  proof (cases res)
    case None
    with e4 show ?thesis by simp
  next
    case (Some err)
    from some[OF Some] have "evs \<noteq> []" "fatal root (last evs)" by blast+
    then have "\<exists>ev \<in> set evs. fatal root ev" using last_in_set by blast
    with Some show ?thesis by simp
  qed
  have some': "\<forall>err. res = Some err \<longrightarrow>
            fatal root (last evs)
            \<and> (\<exists>e. snd (last evs) = Failed e \<and> err = report (fst (last evs)) e)"
    using some by blast
  have wrapped: "\<forall>source target fstype flags data e.
            res \<noteq> None \<and> last evs = (Mount source target fstype flags data, Failed e) \<longrightarrow>
            res = Some (Wrap (Errorf (if fstype = [] then ''error remounting RO %q''
                                      else ''error mounting %q'') [target]) (Errno e))"
  proof (intro allI impI, elim conjE)
    fix source target fstype flags data e
    assume r: "res \<noteq> None" and l: "last evs = (Mount source target fstype flags data, Failed e)"
    from r obtain err where s: "res = Some err" by blast
    from some[OF s] obtain e' where "snd (last evs) = Failed e'" "err = report (fst (last evs)) e'"
      by blast
    with l have "err = report (Mount source target fstype flags data) e" by simp
    with s show "res = Some (Wrap (Errorf (if fstype = [] then ''error remounting RO %q''
                                      else ''error mounting %q'') [target]) (Errno e))"
      by simp
  qed
  have ln: "res = None \<longrightarrow>
            fst (last evs) =
              Mount (filepath_Join [root, ''/sys/fs/cgroup'']) (filepath_Join [root, ''/sys/fs/cgroup'']) []
                (MS_BIND OR MS_REMOUNT OR MS_NOSUID OR MS_NOEXEC OR MS_NODEV OR MS_RDONLY) []
            \<and> failure (snd (last evs)) = None"
    using last_None by blast
  show ?thesis
    apply (rule exI[of _ evs])
    apply (intro conjI)
            apply (rule e1)
           apply (rule ne)
          apply (rule nb)
         apply (rule e2)
        apply (rule e3)
       apply (rule iff)
      apply (rule ln)
     apply (rule some')
    apply (rule wrapped)
    done
qed

theorem mount_failure_aborts_the_build_witness:
  "CreateV1Cgroups tmpfs_denied ''/rootfs'' host_hierarchies [] [] =
     (Some (Wrap (Errorf ''error mounting %q'' [''/rootfs/sys/fs/cgroup'']) (Errno EACCES)),
      [(MkdirAll ''/rootfs/sys'' mode_0700, Done),
       (Mount ''sysfs'' ''/rootfs/sys'' ''sysfs'' (MS_NOSUID OR MS_NOEXEC OR MS_NODEV) [], Failed EBUSY),
       (MkdirAll ''/rootfs/sys/fs/cgroup'' mode_0700, Done),
       (Mount ''tmpfs'' ''/rootfs/sys/fs/cgroup'' ''tmpfs''
          (MS_NOSUID OR MS_NOEXEC OR MS_NODEV OR MS_STRICTATIME) ''mode=755'', Failed EACCES)])
   \<and> fatal ''/rootfs''
        (Mount ''tmpfs'' ''/rootfs/sys/fs/cgroup'' ''tmpfs''
           (MS_NOSUID OR MS_NOEXEC OR MS_NODEV OR MS_STRICTATIME) ''mode=755'', Failed EACCES)
   \<and> \<not> fatal ''/rootfs''
        (Mount ''sysfs'' ''/rootfs/sys'' ''sysfs'' (MS_NOSUID OR MS_NOEXEC OR MS_NODEV) [], Failed EBUSY)
   \<and> fst (CreateV1Cgroups host_kernel ''/rootfs'' host_hierarchies [] []) = None
   \<and> snd (CreateV1Cgroups host_kernel ''/rootfs'' host_hierarchies [] []) ! 1 =
        (Mount ''sysfs'' ''/rootfs/sys'' ''sysfs'' (MS_NOSUID OR MS_NOEXEC OR MS_NODEV) [], Failed EBUSY)
   \<and> last (snd (CreateV1Cgroups host_kernel ''/rootfs'' host_hierarchies [] [])) =
        (Mount ''/rootfs/sys/fs/cgroup'' ''/rootfs/sys/fs/cgroup'' []
          (MS_BIND OR MS_REMOUNT OR MS_NOSUID OR MS_NOEXEC OR MS_NODEV OR MS_RDONLY) [], Done)"
  using mount_failure_aborts_the_build[OF tmpfs_denied_run]
    mount_failure_aborts_the_build[OF host_kernel_run]
  by (simp add: tmpfs_denied_run host_kernel_run fatal_def sysfs_busy_def filepath_Clean_def)


subsection \<open>RW-Window Carver\<close>

lemma TrimSpace_newline: "TrimSpace [CHR 0x0A] = []"
  by (simp add: TrimSpace_def TrimLeftSpace.simps[of "[CHR 0x0A]"] TrimLeftSpace.simps[of "[]"]
      TrimLeftSpaceRev.simps[of "[]"] leading_space_def trailing_space_def is_prefix_def
      space_runes_def space_runes_rev_def)

lemma fixKnob_writes:
  assumes "child = filepath_Join [dir, knob]"
    and "parent = filepath_Join [filepath_Dir dir, knob]"
    and "r = k t (ReadFile child)"
    and "r' = k (t @ [(ReadFile child, r)]) (ReadFile parent)"
  shows "\<exists>evs. fixKnob k dir knob t = t @ evs
       \<and> writes evs =
           (case (content r, content r') of
              (Inr d, Inr d') \<Rightarrow>
                if TrimSpace d = []
                then [WriteFile child d' mode_0644, WriteFile child d' mode_0644]
                else []
            | _ \<Rightarrow> [])
       \<and> (writes evs \<noteq> [] \<longrightarrow>
            evs = [(ReadFile child, r), (ReadFile parent, r')] @ drop 2 evs
            \<and> map fst (drop 2 evs) = writes evs)"
proof (cases "content r")
  case (Inl e)
  show ?thesis
    by (rule exI[of _ "[(ReadFile child, r)]"])
       (use Inl assms in \<open>simp add: fixKnob_def Let_def sys_def writes_def\<close>)
next
  case (Inr d)
  show ?thesis
  proof (cases "TrimSpace d = []")
    case False
    show ?thesis
      by (rule exI[of _ "[(ReadFile child, r)]"])
         (use Inr False assms in \<open>simp add: fixKnob_def Let_def sys_def writes_def split: sum.splits\<close>)
  next
    case True
    show ?thesis
    proof (cases "content r'")
      case (Inl e)
      show ?thesis
        by (rule exI[of _ "[(ReadFile child, r), (ReadFile parent, r')]"])
           (use Inr True Inl assms in \<open>simp add: fixKnob_def Let_def sys_def writes_def\<close>)
    next
      case r': (Inr d')
      let ?t2 = "t @ [(ReadFile child, r), (ReadFile parent, r')]"
      let ?w = "WriteFile child d' mode_0644"
      show ?thesis
        by (rule exI[of _ "[(ReadFile child, r), (ReadFile parent, r'),
                           (?w, k ?t2 ?w), (?w, k (?t2 @ [(?w, k ?t2 ?w)]) ?w)]"])
           (use Inr True r' assms in \<open>simp add: fixKnob_def Let_def sys_def writes_def\<close>)
    qed
  qed
qed

lemma parent_unreadable_run:
  "fixCpusetKnobs parent_unreadable ''/sys/fs/cgroup/cpuset'' [] =
     [(MkdirAll ''/sys/fs/cgroup/cpuset/system.slice'' mode_0755, Done),
      (ReadFile ''/sys/fs/cgroup/cpuset/system.slice/cpuset.mems'', Data [CHR 0x0A]),
      (ReadFile ''/sys/fs/cgroup/cpuset/cpuset.mems'', Failed EIO),
      (ReadFile ''/sys/fs/cgroup/cpuset/system.slice/cpuset.cpus'', Data [CHR 0x0A]),
      (ReadFile ''/sys/fs/cgroup/cpuset/cpuset.cpus'', Failed EIO)]"
  by (simp add: fixCpusetKnobs_def fixKnob_def Let_def sys_def parent_unreadable_def
      filepath_Clean_def filepath_Dir_def TrimSpace_newline)

lemma fresh_slice_run:
  "fixCpusetKnobs fresh_slice ''/sys/fs/cgroup/cpuset'' [] =
     [(MkdirAll ''/sys/fs/cgroup/cpuset/system.slice'' mode_0755, Done),
      (ReadFile ''/sys/fs/cgroup/cpuset/system.slice/cpuset.mems'', Data [CHR 0x0A]),
      (ReadFile ''/sys/fs/cgroup/cpuset/cpuset.mems'', Data (''0-3'' @ [CHR 0x0A])),
      (WriteFile ''/sys/fs/cgroup/cpuset/system.slice/cpuset.mems'' (''0-3'' @ [CHR 0x0A]) mode_0644, Done),
      (WriteFile ''/sys/fs/cgroup/cpuset/system.slice/cpuset.mems'' (''0-3'' @ [CHR 0x0A]) mode_0644, Done),
      (ReadFile ''/sys/fs/cgroup/cpuset/system.slice/cpuset.cpus'', Data [CHR 0x0A]),
      (ReadFile ''/sys/fs/cgroup/cpuset/cpuset.cpus'', Data (''0-3'' @ [CHR 0x0A])),
      (WriteFile ''/sys/fs/cgroup/cpuset/system.slice/cpuset.cpus'' (''0-3'' @ [CHR 0x0A]) mode_0644, Done),
      (WriteFile ''/sys/fs/cgroup/cpuset/system.slice/cpuset.cpus'' (''0-3'' @ [CHR 0x0A]) mode_0644, Done)]"
  by (simp add: fixCpusetKnobs_def fixKnob_def Let_def sys_def fresh_slice_def
      filepath_Clean_def filepath_Dir_def TrimSpace_newline)

lemma fresh_slice_knob:
  "fixKnob fresh_slice ''/sys/fs/cgroup/cpuset/system.slice'' ''cpuset.mems'' [] =
     [(ReadFile ''/sys/fs/cgroup/cpuset/system.slice/cpuset.mems'', Data [CHR 0x0A]),
      (ReadFile ''/sys/fs/cgroup/cpuset/cpuset.mems'', Data (''0-3'' @ [CHR 0x0A])),
      (WriteFile ''/sys/fs/cgroup/cpuset/system.slice/cpuset.mems'' (''0-3'' @ [CHR 0x0A]) mode_0644, Done),
      (WriteFile ''/sys/fs/cgroup/cpuset/system.slice/cpuset.mems'' (''0-3'' @ [CHR 0x0A]) mode_0644, Done)]"
  by (simp add: fixKnob_def Let_def sys_def fresh_slice_def
      filepath_Clean_def filepath_Dir_def TrimSpace_newline)

text \<open>
  C9. One round of \<^const>\<open>fixKnob\<close> writes the knob of the slice exactly when the knob can be
  read, is empty after \<^const>\<open>TrimSpace\<close>, and the knob of the parent directory can be read as
  well; it then writes what the parent holds, twice, and the two writes are the last two
  calls of the round, with nothing between them. In every other case the round writes
  nothing. \<^const>\<open>fixCpusetKnobs\<close> creates \<^verbatim>\<open><cpusetPath>/system.slice\<close> and runs one round for
  \<^verbatim>\<open>cpuset.mems\<close>, then one for \<^verbatim>\<open>cpuset.cpus\<close>. \<^const>\<open>carveController\<close> runs it for the
  directory \<^verbatim>\<open>cpuset\<close> only, and goes on with the services and the read-only remount
  whatever the replies were: the pre-step returns no error.
\<close>

theorem cpuset_knob_is_written_twice:
  assumes "child = filepath_Join [dir, knob]"
    and "parent = filepath_Join [filepath_Dir dir, knob]"
    and "r = k t (ReadFile child)"
    and "r' = k (t @ [(ReadFile child, r)]) (ReadFile parent)"
    and "slice = filepath_Join [cpusetPath, ''system.slice'']"
    and "cPath = filepath_Join [cgroupTmpfs, c]"
  shows
    "(\<exists>evs. fixKnob k dir knob t = t @ evs
       \<and> writes evs =
           (case (content r, content r') of
              (Inr d, Inr d') \<Rightarrow>
                if TrimSpace d = []
                then [WriteFile child d' mode_0644, WriteFile child d' mode_0644]
                else []
            | _ \<Rightarrow> [])
       \<and> (writes evs \<noteq> [] \<longrightarrow>
            evs = [(ReadFile child, r), (ReadFile parent, r')] @ drop 2 evs
            \<and> map fst (drop 2 evs) = writes evs))
     \<and> fixCpusetKnobs k cpusetPath t =
         fixKnob k slice ''cpuset.cpus''
           (fixKnob k slice ''cpuset.mems''
              (t @ [(MkdirAll slice mode_0755, k t (MkdirAll slice mode_0755))]))
     \<and> carveController k cgroupTmpfs subcgroup serviceNames c t =
         andThen (carveServices k c (filepath_Join [cPath, subcgroup, ''system.slice'']) serviceNames)
           (mountFsRO k cPath)
           (if c = ''cpuset'' then fixCpusetKnobs k cPath t else t)"
proof (intro conjI)
  show "\<exists>evs. fixKnob k dir knob t = t @ evs
       \<and> writes evs =
           (case (content r, content r') of
              (Inr d, Inr d') \<Rightarrow>
                if TrimSpace d = []
                then [WriteFile child d' mode_0644, WriteFile child d' mode_0644]
                else []
            | _ \<Rightarrow> [])
       \<and> (writes evs \<noteq> [] \<longrightarrow>
            evs = [(ReadFile child, r), (ReadFile parent, r')] @ drop 2 evs
            \<and> map fst (drop 2 evs) = writes evs)"
    using assms(1-4) by (rule fixKnob_writes)
next
  show "fixCpusetKnobs k cpusetPath t =
         fixKnob k slice ''cpuset.cpus''
           (fixKnob k slice ''cpuset.mems''
              (t @ [(MkdirAll slice mode_0755, k t (MkdirAll slice mode_0755))]))"
    unfolding assms(5) fixCpusetKnobs_def Let_def sys_def by simp
next
  show "carveController k cgroupTmpfs subcgroup serviceNames c t =
         andThen (carveServices k c (filepath_Join [cPath, subcgroup, ''system.slice'']) serviceNames)
           (mountFsRO k cPath)
           (if c = ''cpuset'' then fixCpusetKnobs k cPath t else t)"
    unfolding assms(6) carveController_def Let_def by (simp add: andThen_def)
qed

theorem cpuset_knob_is_written_twice_witness:
  "fixKnob fresh_slice ''/sys/fs/cgroup/cpuset/system.slice'' ''cpuset.mems'' [] =
     [(ReadFile ''/sys/fs/cgroup/cpuset/system.slice/cpuset.mems'', Data [CHR 0x0A]),
      (ReadFile ''/sys/fs/cgroup/cpuset/cpuset.mems'', Data (''0-3'' @ [CHR 0x0A])),
      (WriteFile ''/sys/fs/cgroup/cpuset/system.slice/cpuset.mems'' (''0-3'' @ [CHR 0x0A]) mode_0644, Done),
      (WriteFile ''/sys/fs/cgroup/cpuset/system.slice/cpuset.mems'' (''0-3'' @ [CHR 0x0A]) mode_0644, Done)]
   \<and> writes (fixKnob fresh_slice ''/sys/fs/cgroup/cpuset/system.slice'' ''cpuset.mems'' []) =
     [WriteFile ''/sys/fs/cgroup/cpuset/system.slice/cpuset.mems'' (''0-3'' @ [CHR 0x0A]) mode_0644,
      WriteFile ''/sys/fs/cgroup/cpuset/system.slice/cpuset.mems'' (''0-3'' @ [CHR 0x0A]) mode_0644]
   \<and> writes (fixCpusetKnobs fresh_slice ''/sys/fs/cgroup/cpuset'' []) =
     [WriteFile ''/sys/fs/cgroup/cpuset/system.slice/cpuset.mems'' (''0-3'' @ [CHR 0x0A]) mode_0644,
      WriteFile ''/sys/fs/cgroup/cpuset/system.slice/cpuset.mems'' (''0-3'' @ [CHR 0x0A]) mode_0644,
      WriteFile ''/sys/fs/cgroup/cpuset/system.slice/cpuset.cpus'' (''0-3'' @ [CHR 0x0A]) mode_0644,
      WriteFile ''/sys/fs/cgroup/cpuset/system.slice/cpuset.cpus'' (''0-3'' @ [CHR 0x0A]) mode_0644]"
proof -
  note w = cpuset_knob_is_written_twice
    [where k = fresh_slice and dir = "''/sys/fs/cgroup/cpuset/system.slice''"
       and knob = "''cpuset.mems''" and t = "[]" and cpusetPath = "''/sys/fs/cgroup/cpuset''"
       and cgroupTmpfs = "''/sys/fs/cgroup''" and c = "''cpuset''"
       and subcgroup = "''machine.slice''" and serviceNames = "[]",
     OF refl refl refl refl refl refl]
  have a: "fixKnob fresh_slice ''/sys/fs/cgroup/cpuset/system.slice'' ''cpuset.mems'' [] =
     [(ReadFile ''/sys/fs/cgroup/cpuset/system.slice/cpuset.mems'', Data [CHR 0x0A]),
      (ReadFile ''/sys/fs/cgroup/cpuset/cpuset.mems'', Data (''0-3'' @ [CHR 0x0A])),
      (WriteFile ''/sys/fs/cgroup/cpuset/system.slice/cpuset.mems'' (''0-3'' @ [CHR 0x0A]) mode_0644, Done),
      (WriteFile ''/sys/fs/cgroup/cpuset/system.slice/cpuset.mems'' (''0-3'' @ [CHR 0x0A]) mode_0644, Done)]"
    by (rule fresh_slice_knob)
  have b: "writes (fixKnob fresh_slice ''/sys/fs/cgroup/cpuset/system.slice'' ''cpuset.mems'' []) =
     [WriteFile ''/sys/fs/cgroup/cpuset/system.slice/cpuset.mems'' (''0-3'' @ [CHR 0x0A]) mode_0644,
      WriteFile ''/sys/fs/cgroup/cpuset/system.slice/cpuset.mems'' (''0-3'' @ [CHR 0x0A]) mode_0644]"
    unfolding fresh_slice_knob by (simp add: writes_def)
  have c: "writes (fixCpusetKnobs fresh_slice ''/sys/fs/cgroup/cpuset'' []) =
     [WriteFile ''/sys/fs/cgroup/cpuset/system.slice/cpuset.mems'' (''0-3'' @ [CHR 0x0A]) mode_0644,
      WriteFile ''/sys/fs/cgroup/cpuset/system.slice/cpuset.mems'' (''0-3'' @ [CHR 0x0A]) mode_0644,
      WriteFile ''/sys/fs/cgroup/cpuset/system.slice/cpuset.cpus'' (''0-3'' @ [CHR 0x0A]) mode_0644,
      WriteFile ''/sys/fs/cgroup/cpuset/system.slice/cpuset.cpus'' (''0-3'' @ [CHR 0x0A]) mode_0644]"
    unfolding fresh_slice_run by (simp add: writes_def)
  show ?thesis using w a b c by blast
qed

text \<open>
  C9, as stated, fails: both knobs of the slice are blank, but the knobs of the parent cannot
  be read, and nothing is written.
\<close>

theorem empty_knob_of_unreadable_parent_counterexample:
  "TrimSpace [CHR 0x0A] = []
   \<and> fixCpusetKnobs parent_unreadable ''/sys/fs/cgroup/cpuset'' [] =
     [(MkdirAll ''/sys/fs/cgroup/cpuset/system.slice'' mode_0755, Done),
      (ReadFile ''/sys/fs/cgroup/cpuset/system.slice/cpuset.mems'', Data [CHR 0x0A]),
      (ReadFile ''/sys/fs/cgroup/cpuset/cpuset.mems'', Failed EIO),
      (ReadFile ''/sys/fs/cgroup/cpuset/system.slice/cpuset.cpus'', Data [CHR 0x0A]),
      (ReadFile ''/sys/fs/cgroup/cpuset/cpuset.cpus'', Failed EIO)]
   \<and> writes (fixCpusetKnobs parent_unreadable ''/sys/fs/cgroup/cpuset'' []) = []"
  by (simp add: parent_unreadable_run TrimSpace_newline writes_def)

end
